theory Spec2Isabelle
  imports Complex_Main "HOL-Library.Sublist"
begin

section \<open>Text\<close>

text \<open>
  JavaScript strings are modelled as \<^typ>\<open>string\<close>, lists of 8-bit characters holding
  the UTF-8 bytes of the text. The keywords the engine looks for are ASCII, and an ASCII
  byte never occurs inside the encoding of another character, so substring search on the
  bytes agrees with \<^verbatim>\<open>String.prototype.includes\<close>.

  \<^verbatim>\<open>toLowerCase\<close> maps \<open>A\<close>..\<open>Z\<close> to \<open>a\<close>..\<open>z\<close> and leaves every other byte alone: this
  is JavaScript's result on ASCII text, the text the model covers.
\<close>

definition charToLower :: "char \<Rightarrow> char" where
  "charToLower c =
     (case map_of (zip ''ABCDEFGHIJKLMNOPQRSTUVWXYZ'' ''abcdefghijklmnopqrstuvwxyz'') c of
        None \<Rightarrow> c
      | Some l \<Rightarrow> l)"

definition toLowerCase :: "string \<Rightarrow> string" where
  "toLowerCase s = map charToLower s"

text \<open>\<^verbatim>\<open>s.includes(k)\<close>: \<open>k\<close> occurs in \<open>s\<close> as a contiguous substring.\<close>

fun str_includes :: "string \<Rightarrow> string \<Rightarrow> bool" where
  "str_includes [] k = (k = [])"
| "str_includes (c # cs) k = (prefix k (c # cs) \<or> str_includes cs k)"

text \<open>
  \<^verbatim>\<open>s.match(/and/g) || []\<close>: the list of the matches of the pattern, found from left to
  right, each search resuming after the end of the previous match; the empty list when
  there is none (where \<^verbatim>\<open>match\<close> gives \<^verbatim>\<open>null\<close>). The pattern has no word boundary.
\<close>

fun match_and :: "string \<Rightarrow> string list" where
  "match_and [] = []"
| "match_and (c # cs) =
     (if prefix ''and'' (c # cs) then ''and'' # match_and (drop 3 (c # cs))
      else match_and cs)"

text \<open>\<^verbatim>\<open>xs.join(sep)\<close>\<close>

fun join :: "string \<Rightarrow> string list \<Rightarrow> string" where
  "join sep [] = []"
| "join sep [x] = x"
| "join sep (x # y # ys) = x @ sep @ join sep (y # ys)"

text \<open>
  \<^verbatim>\<open>a || b\<close> on an optional string: \<^verbatim>\<open>undefined\<close> and the empty string are both falsy.
\<close>

definition orElse :: "string option \<Rightarrow> string \<Rightarrow> string" where
  "orElse a b = (case a of None \<Rightarrow> b | Some s \<Rightarrow> if s = [] then b else s)"

text \<open>
  Numbers in template strings: \<^verbatim>\<open>`${n}`\<close> for a number that holds an integer is its
  decimal notation, with a minus sign when negative.
\<close>

definition digitChar :: "nat \<Rightarrow> char" where
  "digitChar d = ''0123456789'' ! d"

fun decimal :: "nat \<Rightarrow> string" where
  "decimal n = (if 10 \<le> n then decimal (n div 10) else []) @ [digitChar (n mod 10)]"

definition numberToString :: "int \<Rightarrow> string" where
  "numberToString i = (if 0 \<le> i then decimal (nat i) else CHR ''-'' # decimal (nat \<bar>i\<bar>))"

section \<open>questTypes.ts\<close>

datatype BugSeverity = GOBLIN | ORC | TROLL | DRAGON | HYDRA

datatype QuestType =
  LOGIC_QUEST | PERFORMANCE_QUEST | INTEGRATION_QUEST | UI_QUEST | DATA_QUEST | ARCHITECTURE_QUEST

datatype QuestPhase = PREPARATION | INVESTIGATION | BATTLE | VICTORY

datatype Significance = Minor | Moderate | Major | Breakthrough

text \<open>Timestamps (\<^verbatim>\<open>Date\<close>) are milliseconds since the epoch.\<close>

record QuestFinding =
  timestamp :: int
  finding :: string
  significance :: Significance

record QuestMilestone =
  timestampM :: int
  titleM :: string
  descriptionM :: string
  phaseM :: QuestPhase

record Quest =
  quest_id :: string
  title :: string
  description :: string
  bugSeverity :: BugSeverity
  questType :: QuestType
  phase :: QuestPhase
  startedAt :: int
  techStack :: "string list option"
  findings :: "QuestFinding list"
  milestones :: "QuestMilestone list"

text \<open>
  \<open>totalExperience\<close> and \<open>heroLevel\<close> are JavaScript numbers that only ever hold
  non-negative integers (far below \<open>2^53\<close>, where doubles stop being exact).
\<close>

record AdventureContext =
  currentQuest :: "Quest option"
  completedQuests :: "Quest list"
  totalExperience :: nat
  heroLevel :: nat

record MentorResponse =
  message :: string
  questions :: "string list"
  encouragement :: string
  nextSuggestions :: "string list"

section \<open>adventureEngine.ts: the classifiers\<close>

text \<open>
  A parameter that has the name of a record field is written with a prime
  (\<open>description'\<close> for \<^verbatim>\<open>description\<close>).
\<close>

definition classifyBugSeverity :: "string \<Rightarrow> string option \<Rightarrow> BugSeverity" where
  "classifyBugSeverity description' urgency =
     (let lowercaseDesc = toLowerCase description';
          lowercaseUrgency = orElse (map_option toLowerCase urgency) ''''
      in
        if str_includes lowercaseDesc ''crash'' \<or> str_includes lowercaseDesc ''down'' \<or>
           str_includes lowercaseDesc ''critical'' \<or> str_includes lowercaseUrgency ''critical'' \<or>
           str_includes lowercaseDesc ''production'' \<or> str_includes lowercaseDesc ''outage''
        then DRAGON
        else if str_includes lowercaseDesc ''multiple'' \<or> str_includes lowercaseDesc ''several'' \<or>
           str_includes lowercaseDesc ''various'' \<or> str_includes lowercaseDesc ''complex'' \<or>
           length (match_and lowercaseDesc) > 2
        then HYDRA
        else if str_includes lowercaseDesc ''slow'' \<or> str_includes lowercaseDesc ''performance'' \<or>
           str_includes lowercaseDesc ''timeout'' \<or> str_includes lowercaseDesc ''integration'' \<or>
           str_includes lowercaseDesc ''api'' \<or> str_includes lowercaseDesc ''database''
        then TROLL
        else if str_includes lowercaseDesc ''feature'' \<or> str_includes lowercaseDesc ''logic'' \<or>
           str_includes lowercaseDesc ''unexpected'' \<or> str_includes lowercaseUrgency ''moderate''
        then ORC
        else GOBLIN)"

text \<open>
  \<open>stackString\<close> is computed as in the source, which never reads it afterwards: every
  test below is on \<open>lowercaseDesc\<close>.
\<close>

definition classifyQuestType :: "string \<Rightarrow> string list option \<Rightarrow> QuestType" where
  "classifyQuestType description' techStack' =
     (let lowercaseDesc = toLowerCase description';
          stackString = orElse (map_option (\<lambda>ts. toLowerCase (join '' '' ts)) techStack') ''''
      in
        if str_includes lowercaseDesc ''ui'' \<or> str_includes lowercaseDesc ''css'' \<or>
           str_includes lowercaseDesc ''layout'' \<or> str_includes lowercaseDesc ''styling'' \<or>
           str_includes lowercaseDesc ''responsive'' \<or> str_includes lowercaseDesc ''display''
        then UI_QUEST
        else if str_includes lowercaseDesc ''performance'' \<or> str_includes lowercaseDesc ''slow'' \<or>
           str_includes lowercaseDesc ''optimization'' \<or> str_includes lowercaseDesc ''memory'' \<or>
           str_includes lowercaseDesc ''speed'' \<or> str_includes lowercaseDesc ''timeout''
        then PERFORMANCE_QUEST
        else if str_includes lowercaseDesc ''api'' \<or> str_includes lowercaseDesc ''integration'' \<or>
           str_includes lowercaseDesc ''service'' \<or> str_includes lowercaseDesc ''external'' \<or>
           str_includes lowercaseDesc ''webhook'' \<or> str_includes lowercaseDesc ''third-party''
        then INTEGRATION_QUEST
        else if str_includes lowercaseDesc ''database'' \<or> str_includes lowercaseDesc ''data'' \<or>
           str_includes lowercaseDesc ''query'' \<or> str_includes lowercaseDesc ''storage'' \<or>
           str_includes lowercaseDesc ''migration'' \<or> str_includes lowercaseDesc ''sql''
        then DATA_QUEST
        else if str_includes lowercaseDesc ''architecture'' \<or> str_includes lowercaseDesc ''design'' \<or>
           str_includes lowercaseDesc ''structure'' \<or> str_includes lowercaseDesc ''refactor'' \<or>
           str_includes lowercaseDesc ''scalability'' \<or> str_includes lowercaseDesc ''maintainability''
        then ARCHITECTURE_QUEST
        else LOGIC_QUEST)"

section \<open>Glyphs\<close>

text \<open>
  The message literals are decorated with characters outside ASCII. Each is a constant
  holding the bytes of the source file at that place: \<open>emoji_\<close> for
  \<^verbatim>\<open>mentorResponses.ts\<close>, \<open>glyph_\<close> for \<^verbatim>\<open>adventureEngine.ts\<close>.
\<close>

definition glyph_scroll :: string where
  "glyph_scroll =
     [CHR 0xC3, CHR 0xB0, CHR 0xC5, CHR 0xB8, CHR 0xE2, CHR 0x80, CHR 0x9C, CHR 0xC5,
      CHR 0x93]"

definition glyph_castle :: string where
  "glyph_castle = [CHR 0xC3, CHR 0xB0, CHR 0xC5, CHR 0xB8, CHR 0xC2, CHR 0xB0]"

definition glyph_dagger :: string where
  "glyph_dagger =
     [CHR 0xC3, CHR 0xB0, CHR 0xC5, CHR 0xB8, CHR 0xE2, CHR 0x80, CHR 0x94, CHR 0xC2,
      CHR 0xA1, CHR 0xC3, CHR 0xAF, CHR 0xC2, CHR 0xB8]"

definition glyph_bullet :: string where
  "glyph_bullet = [CHR 0xC3, CHR 0xA2, CHR 0xE2, CHR 0x82, CHR 0xAC, CHR 0xC2, CHR 0xA2]"

definition glyph_mage :: string where
  "glyph_mage =
     [CHR 0xC3, CHR 0xB0, CHR 0xC5, CHR 0xB8, CHR 0xC2, CHR 0xA7, CHR 0xE2, CHR 0x84,
      CHR 0xA2, CHR 0xC3, CHR 0xA2, CHR 0xE2, CHR 0x82, CHR 0xAC, CHR 0xC3, CHR 0xA2,
      CHR 0xE2, CHR 0x84, CHR 0xA2, CHR 0xE2, CHR 0x80, CHR 0x9A, CHR 0xC3, CHR 0xAF,
      CHR 0xC2, CHR 0xB8]"

definition glyph_magnifier :: string where
  "glyph_magnifier = [CHR 0xC3, CHR 0xB0, CHR 0xC5, CHR 0xB8, CHR 0xE2, CHR 0x80, CHR 0x9D]"

definition glyph_magnifier_right :: string where
  "glyph_magnifier_right =
     [CHR 0xC3, CHR 0xB0, CHR 0xC5, CHR 0xB8, CHR 0xE2, CHR 0x80, CHR 0x9D, CHR 0xC5,
      CHR 0xBD]"

definition glyph_target :: string where
  "glyph_target =
     [CHR 0xC3, CHR 0xB0, CHR 0xC5, CHR 0xB8, CHR 0xC5, CHR 0xBD, CHR 0xC2, CHR 0xAF]"

definition glyph_star :: string where
  "glyph_star =
     [CHR 0xC3, CHR 0xB0, CHR 0xC5, CHR 0xB8, CHR 0xC5, CHR 0x92, CHR 0xC5, CHR 0xB8]"

definition glyph_goblin :: string where
  "glyph_goblin =
     [CHR 0xC3, CHR 0xB0, CHR 0xC5, CHR 0xB8, CHR 0xC2, CHR 0xA7, CHR 0xC5, CHR 0x92]"

definition glyph_swords :: string where
  "glyph_swords =
     [CHR 0xC3, CHR 0xA2, CHR 0xC5, CHR 0xA1, CHR 0xE2, CHR 0x80, CHR 0x9D, CHR 0xC3,
      CHR 0xAF, CHR 0xC2, CHR 0xB8]"

definition glyph_ogre :: string where
  "glyph_ogre =
     [CHR 0xC3, CHR 0xB0, CHR 0xC5, CHR 0xB8, CHR 0xE2, CHR 0x80, CHR 0x98, CHR 0xC2,
      CHR 0xB9]"

definition glyph_dragon :: string where
  "glyph_dragon = [CHR 0xC3, CHR 0xB0, CHR 0xC5, CHR 0xB8, CHR 0xE2, CHR 0x80, CHR 0xB0]"

definition glyph_snake :: string where
  "glyph_snake = [CHR 0xC3, CHR 0xB0, CHR 0xC5, CHR 0xB8]"

definition glyph_shield :: string where
  "glyph_shield =
     [CHR 0xC3, CHR 0xB0, CHR 0xC5, CHR 0xB8, CHR 0xE2, CHR 0x80, CHR 0xBA, CHR 0xC2,
      CHR 0xA1, CHR 0xC3, CHR 0xAF, CHR 0xC2, CHR 0xB8]"

definition glyph_trophy :: string where
  "glyph_trophy = [CHR 0xC3, CHR 0xB0, CHR 0xC5, CHR 0xB8, CHR 0xE2, CHR 0x80, CHR 0xA0]"

definition emoji_trophy :: string where
  "emoji_trophy = [CHR 0xF0, CHR 0x9F, CHR 0x8F, CHR 0x86]"

definition emoji_swords :: string where
  "emoji_swords = [CHR 0xE2, CHR 0x9A, CHR 0x94, CHR 0xEF, CHR 0xB8, CHR 0x8F]"

definition emoji_party :: string where
  "emoji_party = [CHR 0xF0, CHR 0x9F, CHR 0x8E, CHR 0x89]"

definition emoji_sparkles :: string where
  "emoji_sparkles = [CHR 0xE2, CHR 0x9C, CHR 0xA8]"

definition emoji_shield :: string where
  "emoji_shield = [CHR 0xF0, CHR 0x9F, CHR 0x9B, CHR 0xA1, CHR 0xEF, CHR 0xB8, CHR 0x8F]"

section \<open>mentorResponses.ts\<close>

definition greetings :: "string list" where
  "greetings =
     [''Greetings, brave code warrior! I sense a disturbance in the digital realm...'',
      ''Welcome back, noble developer! What villainous bug dares to challenge you today?'',
      ''Ah, another hero seeks wisdom in the art of bug slaying! Tell me of your quest...'',
      ''The ancient scrolls whisper of your coding prowess. What mystery brings you here?'',
      ''Hail and well met! I see the determination in your eyes. What beast shall we hunt?'']"

definition questions_table :: "QuestType \<Rightarrow> QuestPhase \<Rightarrow> string list" where
  "questions_table questType' phase' =
     (case questType' of
        LOGIC_QUEST \<Rightarrow>
          (case phase' of
             PREPARATION \<Rightarrow>
               [''What incantation (code) were you weaving when this logic goblin first appeared?'',
                ''Can you describe the expected behavior versus what this mischievous spirit is actually doing?'',
                ''What inputs are you feeding to this spell, and what outputs do you receive?'',
                ''Have you tried tracing through your logic step by step, like following footprints in the forest?'']
           | INVESTIGATION \<Rightarrow>
               [''What happens if you test each condition in isolation, like examining each ingredient of a potion?'',
                ''Can you add some debugging runes (console logs) to see where the logic goes astray?'',
                ''What would happen if you walked through this code with different test cases?'',
                ''Are there any assumptions in your code that might not hold true in all scenarios?'']
           | BATTLE \<Rightarrow>
               [''How might you restructure this logic to make it more transparent and less prone to trickery?'',
                ''What edge cases might your current approach be missing?'',
                ''Could breaking this complex spell into smaller, simpler enchantments help?'',
                ''How can you verify that your solution handles all the scenarios you've discovered?'']
           | VICTORY \<Rightarrow>
               [''Excellent! How does your solution handle the edge cases you discovered?'',
                ''What did you learn about this type of logic that you'll carry into future quests?'',
                ''How might you prevent similar logic goblins from appearing in the future?''])
      | PERFORMANCE_QUEST \<Rightarrow>
          (case phase' of
             PREPARATION \<Rightarrow>
               [''Where in your kingdom (application) have you noticed the performance dragon stirring?'',
                ''What actions or spells seem to awaken this sluggish beast?'',
                ''Have you measured the dragon's size? What metrics show the performance impact?'',
                ''When did you first notice this performance curse affecting your realm?'']
           | INVESTIGATION \<Rightarrow>
               [''What happens when you profile your code? Where do the performance bottlenecks lurk?'',
                ''Could there be unnecessary work being done, like casting the same spell repeatedly?'',
                ''Are you loading more data than needed, like carrying too much treasure in your pack?'',
                ''What tools can help you see where time is being spent in your application?'']
           | BATTLE \<Rightarrow>
               [''How might you optimize the most expensive operations you've identified?'',
                ''Could caching or memoization help you avoid repeating costly computations?'',
                ''Are there more efficient algorithms or data structures you could employ?'',
                ''What trade-offs are you willing to make between performance and other qualities?'']
           | VICTORY \<Rightarrow>
               [''Magnificent! How much faster is your optimized solution?'',
                ''What performance monitoring will you put in place to catch future dragons early?'',
                ''What performance lessons will you apply to prevent similar issues?''])
      | INTEGRATION_QUEST \<Rightarrow>
          (case phase' of
             PREPARATION \<Rightarrow>
               [''Which external realm (API/service) is refusing to cooperate with your kingdom?'',
                ''What message exchanges are failing between your systems?'',
                ''Are you receiving error scrolls (status codes/error messages) from the other realm?'',
                ''What did the integration work like before this troll appeared?'']
           | INVESTIGATION \<Rightarrow>
               [''Can you test the external service independently to verify it's working?'',
                ''What does the network traffic look like? Are your requests formatted correctly?'',
                ''Are authentication tokens or API keys still valid and properly configured?'',
                ''How does your error handling respond to different types of failures?'']
           | BATTLE \<Rightarrow>
               [''How might you make your integration more resilient to temporary failures?'',
                ''What retry strategies or circuit breakers could protect your system?'',
                ''How can you better handle and communicate integration errors to users?'',
                ''What monitoring would help you detect integration issues quickly?'']
           | VICTORY \<Rightarrow>
               [''Splendid! How does your solution handle various failure scenarios?'',
                ''What monitoring have you added to watch for future integration troubles?'',
                ''How will you test this integration going forward to prevent regressions?''])
      | UI_QUEST \<Rightarrow>
          (case phase' of
             PREPARATION \<Rightarrow>
               [''What visual enchantment is misbehaving in your user interface?'',
                ''On which viewing crystals (browsers/devices) does this UI goblin appear?'',
                ''What should the interface look like versus what users are actually seeing?'',
                ''When do users encounter this visual disturbance in their journey?'']
           | INVESTIGATION \<Rightarrow>
               [''What do the browser's developer tools reveal about the styling or layout?'',
                ''Are there CSS conflicts or JavaScript errors affecting the presentation?'',
                ''How does the interface behave at different screen sizes or zoom levels?'',
                ''What happens when you isolate the problematic component?'']
           | BATTLE \<Rightarrow>
               [''How might you restructure the CSS to be more predictable and maintainable?'',
                ''What responsive design patterns could better handle different screen sizes?'',
                ''How can you test this interface across different browsers and devices?'',
                ''What accessibility considerations should be addressed in your solution?'']
           | VICTORY \<Rightarrow>
               [''Wonderful! How does your interface now perform across different devices?'',
                ''What CSS or component patterns will you use to prevent similar UI issues?'',
                ''How will you test UI changes going forward to catch visual regressions?''])
      | DATA_QUEST \<Rightarrow>
          (case phase' of
             PREPARATION \<Rightarrow>
               [''What data sorcery is going awry in your information stores?'',
                ''Are you seeing incorrect, missing, or corrupted data in your repositories?'',
                ''What operations on your data seem to awaken this particular data demon?'',
                ''When did you first notice the data behaving strangely?'']
           | INVESTIGATION \<Rightarrow>
               [''Can you trace the data's journey from source to destination?'',
                ''Are there data transformations or validations that might be affecting the information?'',
                ''What do your database queries return when tested directly?'',
                ''How does the data look at each step of processing?'']
           | BATTLE \<Rightarrow>
               [''How might you add validation to catch data issues earlier in the process?'',
                ''What data integrity constraints could prevent corruption?'',
                ''How can you better handle edge cases in your data processing?'',
                ''What backup and recovery procedures should be in place?'']
           | VICTORY \<Rightarrow>
               [''Excellent! How have you ensured data integrity going forward?'',
                ''What monitoring will alert you to similar data issues in the future?'',
                ''What validation patterns will you apply to prevent data corruption?''])
      | ARCHITECTURE_QUEST \<Rightarrow>
          (case phase' of
             PREPARATION \<Rightarrow>
               [''What architectural challenge threatens the stability of your digital kingdom?'',
                ''Which components or services are struggling to work together harmoniously?'',
                ''What scalability or maintainability issues are you encountering?'',
                ''How is this architectural dragon affecting your users or development team?'']
           | INVESTIGATION \<Rightarrow>
               [''What are the key responsibilities and boundaries of each component?'',
                ''Where are the coupling points between different parts of your system?'',
                ''What quality attributes (performance, scalability, maintainability) are most important?'',
                ''How do current design patterns support or hinder your goals?'']
           | BATTLE \<Rightarrow>
               [''How might you restructure components to better separate concerns?'',
                ''What patterns or principles could guide your architectural decisions?'',
                ''How can you ensure your architecture supports future growth and changes?'',
                ''What refactoring steps would move you toward your desired architecture?'']
           | VICTORY \<Rightarrow>
               [''Magnificent! How does your new architecture better serve your requirements?'',
                ''What architectural principles will guide your future design decisions?'',
                ''How will you maintain architectural quality as your system evolves?'']))"

definition encouragements :: "BugSeverity \<Rightarrow> string list" where
  "encouragements severity =
     (case severity of
        GOBLIN \<Rightarrow>
          [''Fear not, this goblin may be small but defeating it will sharpen your skills!'',
           ''Even mighty heroes started by conquering simple goblins. You've got this!'',
           ''This minor creature won't stand long against your growing expertise!'',
           ''A quick victory over this goblin will boost your confidence for bigger battles!'']
      | ORC \<Rightarrow>
          [''This orc requires strategy, but I sense the wisdom within you to overcome it!'',
           ''Moderate foes like this orc test your problem-solving prowess. Trust your instincts!'',
           ''You've grown strong enough to face this orc. Take it step by step!'',
           ''This orc may be tougher than a goblin, but your skills have grown to match the challenge!'']
      | TROLL \<Rightarrow>
          [''Trolls are formidable, but methodical heroes like yourself have conquered them before!'',
           ''This troll guards important knowledge. Defeating it will make you a stronger developer!'',
           ''Complex beasts like this troll require patience and persistence. You have both!'',
           ''The troll seems intimidating, but remember: every expert was once a beginner who didn't give up!'']
      | DRAGON \<Rightarrow>
          [''Dragons are the ultimate test of a hero's skills. You wouldn't face one if you weren't ready!'',
           ''This dragon threatens your entire kingdom, but heroes like you are exactly what's needed!'',
           ''The greatest legends are born from dragon-slaying quests. This is your moment!'',
           ''Dragons have fallen before determined heroes. Your persistence will be the key to victory!'']
      | HYDRA \<Rightarrow>
          [''The dreaded Hydra! Multiple heads require multiple strategies. Your systematic approach will prevail!'',
           ''Hydras are rare beasts that only the most experienced adventurers encounter. You're among the elite!'',
           ''Each head of this Hydra teaches a different lesson. Embrace the complex challenge!'',
           ''Multi-faceted problems create multi-talented heroes. This Hydra will make you legendary!''])"

definition milestoneAcknowledgments :: "string list" where
  "milestoneAcknowledgments =
     [''Excellent discovery! You've uncovered an important clue in your quest!'',
      ''Your investigation skills grow stronger! This finding brings you closer to victory!'',
      ''Brilliant insight! The path forward becomes clearer with each discovery!'',
      ''Your persistence pays off! This breakthrough illuminates the way ahead!'',
      ''Masterful detection! You're developing the instincts of a true bug hunter!'']"

definition victoryMessages :: "string list" where
  "victoryMessages =
     [emoji_trophy @ '' Victory! Another bug vanquished by your heroic efforts! Your debugging prowess grows stronger!'',
      emoji_swords @ '' Triumphant! The digital realm is safer thanks to your noble quest! Well fought, brave warrior!'',
      emoji_party @ '' Success! You've proven once again that no bug can withstand a determined hero's resolve!'',
      emoji_sparkles @ '' Glorious victory! Your systematic approach and persistence have saved the day once more!'',
      emoji_shield @ '' Champion! Your debugging skills shine brighter with each conquered challenge!'']"

text \<open>
  The host supplies what an operation reads from outside the engine during one call:
  the wall clock (\<^verbatim>\<open>Date.now()\<close> and \<^verbatim>\<open>new Date()\<close>, in milliseconds; the reads of one
  call are taken to agree), the values of \<^verbatim>\<open>Math.random()\<close> that
  \<^verbatim>\<open>getRandomResponse\<close> draws (\<open>mathRandom e k\<close> is the \<open>k\<close>-th of the call, each in
  \<open>[0, 1)\<close>), and the text \<^verbatim>\<open>Math.random().toString(36).substr(2, 9)\<close> that ends a
  quest identifier.
\<close>

record env =
  now :: int
  mathRandom :: "nat \<Rightarrow> real"
  idSuffix :: string

text \<open>
  \<^verbatim>\<open>responses[Math.floor(Math.random() * responses.length)]\<close>, with \<open>r\<close> the random
  value. Outside the array JavaScript yields \<^verbatim>\<open>undefined\<close>; that needs an empty pool or
  a value outside \<open>[0, 1)\<close>, and no pool above is empty.
\<close>

definition getRandomResponse :: "string list \<Rightarrow> real \<Rightarrow> string" where
  "getRandomResponse responses r =
     (let i = \<lfloor>r * real (length responses)\<rfloor>
      in if 0 \<le> i \<and> nat i < length responses then responses ! nat i else ''undefined'')"

definition getQuestQuestions :: "QuestType \<Rightarrow> QuestPhase \<Rightarrow> string list" where
  "getQuestQuestions questType' phase' = questions_table questType' phase'"

definition getEncouragement :: "BugSeverity \<Rightarrow> real \<Rightarrow> string" where
  "getEncouragement severity r = getRandomResponse (encouragements severity) r"

definition getGreeting :: "real \<Rightarrow> string" where
  "getGreeting r = getRandomResponse greetings r"

definition getMilestoneAcknowledgment :: "real \<Rightarrow> string" where
  "getMilestoneAcknowledgment r = getRandomResponse milestoneAcknowledgments r"

definition getVictoryMessage :: "real \<Rightarrow> string" where
  "getVictoryMessage r = getRandomResponse victoryMessages r"

section \<open>adventureEngine.ts: the quest tracker\<close>

text \<open>
  The engine's private \<^verbatim>\<open>context\<close> is passed in and returned. A quest is a value: the
  engine never keeps two references to a quest it still mutates (\<^verbatim>\<open>completeQuest\<close>
  clears the current slot when it archives the quest).
\<close>

definition initialContext :: AdventureContext where
  "initialContext =
     \<lparr>currentQuest = None, completedQuests = [], totalExperience = 0, heroLevel = 1\<rparr>"

definition generateQuestId :: "env \<Rightarrow> string" where
  "generateQuestId e = ''quest_'' @ numberToString (now e) @ ''_'' @ idSuffix e"

definition generateQuestTitle :: "BugSeverity \<Rightarrow> QuestType \<Rightarrow> string" where
  "generateQuestTitle severity type =
     (let severityTitles = (\<lambda>s. case s of
            GOBLIN \<Rightarrow> ''The Goblin Incident''
          | ORC \<Rightarrow> ''The Orc Uprising''
          | TROLL \<Rightarrow> ''The Troll's Challenge''
          | DRAGON \<Rightarrow> ''The Dragon's Curse''
          | HYDRA \<Rightarrow> ''The Hydra's Many Heads'');
          typeTitles = (\<lambda>t. case t of
            LOGIC_QUEST \<Rightarrow> ''Logic Labyrinth''
          | PERFORMANCE_QUEST \<Rightarrow> ''Performance Peril''
          | INTEGRATION_QUEST \<Rightarrow> ''Integration Invasion''
          | UI_QUEST \<Rightarrow> ''Interface Intrigue''
          | DATA_QUEST \<Rightarrow> ''Data Dungeon''
          | ARCHITECTURE_QUEST \<Rightarrow> ''Architecture Awakening'')
      in severityTitles severity @ '' in the '' @ typeTitles type)"

definition getBugDescription :: "BugSeverity \<Rightarrow> string" where
  "getBugDescription severity =
     (case severity of
        GOBLIN \<Rightarrow> ''A mischievous goblin '' @ glyph_goblin
      | ORC \<Rightarrow> ''A cunning orc warrior '' @ glyph_swords
      | TROLL \<Rightarrow> ''A formidable troll '' @ glyph_ogre
      | DRAGON \<Rightarrow> ''A mighty dragon '' @ glyph_dragon
      | HYDRA \<Rightarrow> ''The dreaded multi-headed hydra '' @ glyph_snake)"

definition getQuestTypeDescription :: "QuestType \<Rightarrow> string" where
  "getQuestTypeDescription type =
     (case type of
        LOGIC_QUEST \<Rightarrow> ''Logic & Algorithms''
      | PERFORMANCE_QUEST \<Rightarrow> ''Performance & Optimization''
      | INTEGRATION_QUEST \<Rightarrow> ''API & Integration''
      | UI_QUEST \<Rightarrow> ''User Interface''
      | DATA_QUEST \<Rightarrow> ''Data & Storage''
      | ARCHITECTURE_QUEST \<Rightarrow> ''System Architecture'')"

definition getPhaseDescription :: "QuestPhase \<Rightarrow> string" where
  "getPhaseDescription phase' =
     (case phase' of
        PREPARATION \<Rightarrow>
          glyph_shield @ '' Preparation - Gathering intelligence and understanding the challenge''
      | INVESTIGATION \<Rightarrow>
          glyph_magnifier @ '' Investigation - Exploring theories and testing hypotheses''
      | BATTLE \<Rightarrow>
          glyph_swords @ '' Battle - Implementing and refining solutions''
      | VICTORY \<Rightarrow>
          glyph_trophy @ '' Victory - Challenge conquered!'')"

definition addMilestone :: "env \<Rightarrow> Quest \<Rightarrow> string \<Rightarrow> string \<Rightarrow> Quest" where
  "addMilestone e quest title' description' =
     (let milestone =
            \<lparr>timestampM = now e, titleM = title', descriptionM = description',
             phaseM = phase quest\<rparr>
      in quest\<lparr>milestones := milestones quest @ [milestone]\<rparr>)"

definition updateQuestPhase :: "env \<Rightarrow> Quest \<Rightarrow> Quest" where
  "updateQuestPhase e quest =
     (let findingCount = length (findings quest);
          hasBreakthrough = list_ex (\<lambda>f. significance f = Breakthrough) (findings quest)
      in
        if phase quest = PREPARATION \<and> findingCount \<ge> 3 then
          addMilestone e (quest\<lparr>phase := INVESTIGATION\<rparr>) ''Investigation Phase''
            ''Gathered enough information to begin deeper investigation''
        else if phase quest = INVESTIGATION \<and> (hasBreakthrough \<or> findingCount \<ge> 6) then
          addMilestone e (quest\<lparr>phase := BATTLE\<rparr>) ''Battle Phase''
            ''Ready to implement and test solutions''
        else quest)"

definition getNextSuggestions :: "Quest \<Rightarrow> string list" where
  "getNextSuggestions quest =
     (case phase quest of
        PREPARATION \<Rightarrow>
          [''Gather more details about the problem'',
           ''Create a minimal reproduction case'',
           ''Check what changed recently'']
      | INVESTIGATION \<Rightarrow>
          [''Test your hypotheses systematically'',
           ''Add debugging information to see what's happening'',
           ''Try isolating the problem area'']
      | BATTLE \<Rightarrow>
          [''Implement a focused solution'',
           ''Test your fix thoroughly'',
           ''Consider edge cases and potential side effects'']
      | VICTORY \<Rightarrow>
          [''Document your solution'',
           ''Add tests to prevent regression'',
           ''Share your learnings with the team''])"

definition calculateExperience :: "Quest \<Rightarrow> nat" where
  "calculateExperience quest =
     (let baseXP = (\<lambda>s. case s of
            GOBLIN \<Rightarrow> 10 | ORC \<Rightarrow> 25 | TROLL \<Rightarrow> 50 | DRAGON \<Rightarrow> 100 | HYDRA \<Rightarrow> 150);
          findingsBonus = length (findings quest) * 2;
          milestonesBonus = length (milestones quest) * 5
      in baseXP (bugSeverity quest) + findingsBonus + milestonesBonus)"

text \<open>
  The spec gives \<^verbatim>\<open>append_finding\<close>, \<^verbatim>\<open>seek_wisdom\<close> and \<^verbatim>\<open>close\<close> the result
  \<^verbatim>\<open>GuidancePayload | NoActiveQuestError\<close>. The three methods are modelled with that
  result type, \<open>Inl\<close> for a thrown error and \<open>Inr\<close> for a returned
  \<^verbatim>\<open>MentorResponse\<close>; the source has no \<^verbatim>\<open>throw\<close>, so each of its \<^verbatim>\<open>return\<close>
  statements is an \<open>Inr\<close>.
\<close>

datatype error = NoActiveQuestError

definition startQuest ::
  "string \<Rightarrow> string list option \<Rightarrow> string option \<Rightarrow> env \<Rightarrow> AdventureContext
     \<Rightarrow> (Quest \<times> MentorResponse) \<times> AdventureContext" where
  "startQuest description' techStack' urgency e ctx =
     (let bugSeverity' = classifyBugSeverity description' urgency;
          questType' = classifyQuestType description' techStack';
          quest =
            \<lparr>quest_id = generateQuestId e,
             title = generateQuestTitle bugSeverity' questType',
             description = description',
             bugSeverity = bugSeverity',
             questType = questType',
             phase = PREPARATION,
             startedAt = now e,
             techStack = techStack',
             findings = [],
             milestones = []\<rparr>;
          ctx' = ctx\<lparr>currentQuest := Some quest\<rparr>;
          questions' = getQuestQuestions questType' PREPARATION;
          encouragement' = getEncouragement bugSeverity' (mathRandom e 0);
          response =
            \<lparr>message =
               getGreeting (mathRandom e 1) @ ''\<newline>\<newline>'' @ glyph_scroll @ '' **'' @
               title quest @ ''**\<newline>\<newline>'' @ description' @ ''\<newline>\<newline>'' @
               getBugDescription bugSeverity' @ '' awaits your investigation!'',
             questions = take 3 questions',
             encouragement = encouragement',
             nextSuggestions =
               [''Gather more information about when and how the issue occurs'',
                ''Identify what changed recently that might have caused this'',
                ''Create a minimal reproduction case if possible'']\<rparr>
      in ((quest, response), ctx'))"

definition continueQuest ::
  "string \<Rightarrow> Significance option \<Rightarrow> env \<Rightarrow> AdventureContext
     \<Rightarrow> (error + MentorResponse) \<times> AdventureContext" where
  "continueQuest finding' significanceArg e ctx =
     (case currentQuest ctx of
        None \<Rightarrow>
          (Inr \<lparr>message =
                  ''No active quest found! Use 'start_quest' to begin your debugging adventure.'',
                questions = [],
                encouragement = ''Ready to embark on a new debugging quest?'',
                nextSuggestions = [''Start a new quest to begin your debugging journey'']\<rparr>,
           ctx)
      | Some quest0 \<Rightarrow>
          (let significance' = (case significanceArg of None \<Rightarrow> Moderate | Some s \<Rightarrow> s);
               questFinding =
                 \<lparr>timestamp = now e, finding = finding', significance = significance'\<rparr>;
               quest1 = quest0\<lparr>findings := findings quest0 @ [questFinding]\<rparr>;
               quest = updateQuestPhase e quest1;
               ctx' = ctx\<lparr>currentQuest := Some quest\<rparr>;
               questions' = getQuestQuestions (questType quest) (phase quest);
               acknowledgment =
                 (if significance' = Breakthrough then getMilestoneAcknowledgment (mathRandom e 0)
                  else ''Interesting discovery! This information helps build our understanding.'');
               nextSuggestions' = getNextSuggestions quest
           in (Inr \<lparr>message =
                       acknowledgment @ ''\<newline>\<newline>**Your Finding:** '' @ finding' @
                       ''\<newline>\<newline>**Current Phase:** '' @ getPhaseDescription (phase quest),
                     questions = take 3 questions',
                     encouragement =
                       getEncouragement (bugSeverity quest)
                         (mathRandom e (if significance' = Breakthrough then 1 else 0)),
                     nextSuggestions = nextSuggestions'\<rparr>,
               ctx')))"

definition getQuestStatus :: "env \<Rightarrow> AdventureContext \<Rightarrow> string" where
  "getQuestStatus e ctx =
     (case currentQuest ctx of
        None \<Rightarrow> glyph_castle @ '' No active quest. Ready to face a new debugging challenge?''
      | Some quest \<Rightarrow>
          (let timeElapsed = (now e - startedAt quest) div (1000 * 60)
           in glyph_dagger @ '' **'' @ title quest @
              ''**\<newline>    \<newline>**Beast Type:** '' @ getBugDescription (bugSeverity quest) @
              ''\<newline>**Quest Type:** '' @ getQuestTypeDescription (questType quest) @
              ''  \<newline>**Phase:** '' @ getPhaseDescription (phase quest) @
              ''\<newline>**Time Elapsed:** '' @ numberToString timeElapsed @
              '' minutes\<newline>**Findings Collected:** '' @ decimal (length (findings quest)) @
              ''\<newline>**Milestones Achieved:** '' @ decimal (length (milestones quest)) @
              ''\<newline>\<newline>**Recent Findings:**\<newline>'' @
              join ''\<newline>''
                (map (\<lambda>f. glyph_bullet @ '' '' @ finding f)
                   (drop (length (findings quest) - 3) (findings quest))) @
              ''\<newline>\<newline>**Hero Level:** '' @ decimal (heroLevel ctx) @
              '' \<newline>**Total Experience:** '' @ decimal (totalExperience ctx) @
              '' XP\<newline>**Completed Quests:** '' @
              decimal (length (completedQuests ctx))))"

definition seekWisdom ::
  "string \<Rightarrow> env \<Rightarrow> AdventureContext \<Rightarrow> (error + MentorResponse) \<times> AdventureContext" where
  "seekWisdom helpType e ctx =
     (case currentQuest ctx of
        None \<Rightarrow>
          (Inr \<lparr>message =
                  ''Start a quest first, brave hero! I can only provide guidance '' @
                  ''when you have an active debugging challenge.'',
                questions = [],
                encouragement = ''Every great adventure begins with a single step!'',
                nextSuggestions = [''Begin a new debugging quest'']\<rparr>,
           ctx)
      | Some quest \<Rightarrow>
          (let helpTypeLower = toLowerCase helpType;
               (message', questions') =
                 (if str_includes helpTypeLower ''approach'' \<or> str_includes helpTypeLower ''strategy''
                  then
                    (glyph_mage @ '' **Strategic Wisdom**\<newline>\<newline>'' @
                     ''When facing complex bugs, remember the hero's methodology:'',
                     [''Have you clearly defined what 'success' looks like for solving this issue?'',
                      ''What's the simplest way you could reproduce this problem?'',
                      ''If you had to explain this bug to someone else, what would you say?'',
                      ''What assumptions are you making that might not be true?''])
                  else if str_includes helpTypeLower ''test'' \<or> str_includes helpTypeLower ''verify''
                  then
                    (glyph_magnifier @ '' **Testing Wisdom**\<newline>\<newline>'' @
                     ''Every good hero tests their theories before charging into battle:'',
                     [''What's the smallest change you could make to test your hypothesis?'',
                      ''How can you isolate this issue from other potential problems?'',
                      ''What would happen if you removed or simplified the problematic code?'',
                      ''How can you verify that your solution actually fixes the root cause?''])
                  else if str_includes helpTypeLower ''investigate'' \<or>
                          str_includes helpTypeLower ''explore''
                  then
                    (glyph_magnifier_right @ '' **Investigation Wisdom**\<newline>\<newline>'' @
                     ''True heroes gather intelligence before striking:'',
                     [''What clues does your development environment provide (logs, debugger, etc.)?'',
                      ''When did this problem first appear? What changed around that time?'',
                      ''Are there similar patterns elsewhere in your codebase?'',
                      ''What would someone unfamiliar with this code need to understand the issue?''])
                  else
                    (glyph_target @ '' **General Wisdom**\<newline>\<newline>'' @
                     ''Remember the fundamental principles of debugging:'',
                     take 3 (getQuestQuestions (questType quest) (phase quest))))
           in (Inr \<lparr>message = message',
                     questions = questions',
                     encouragement = getEncouragement (bugSeverity quest) (mathRandom e 0),
                     nextSuggestions = getNextSuggestions quest\<rparr>,
               ctx)))"

definition completeQuest ::
  "string option \<Rightarrow> env \<Rightarrow> AdventureContext \<Rightarrow> (error + MentorResponse) \<times> AdventureContext" where
  "completeQuest solutionSummary e ctx =
     (case currentQuest ctx of
        None \<Rightarrow>
          (Inr \<lparr>message =
                  ''No active quest to complete! Start a new adventure when you're ready.'',
                questions = [],
                encouragement = ''Every master was once a beginner!'',
                nextSuggestions = [''Begin a new debugging quest'']\<rparr>,
           ctx)
      | Some quest0 \<Rightarrow>
          (let quest1 = quest0\<lparr>phase := VICTORY\<rparr>;
               victoryMilestone =
                 \<lparr>timestampM = now e,
                  titleM = ''Quest Completed!'',
                  descriptionM = orElse solutionSummary ''Hero successfully vanquished the bug!'',
                  phaseM = VICTORY\<rparr>;
               quest = quest1\<lparr>milestones := milestones quest1 @ [victoryMilestone]\<rparr>;
               experienceGained = calculateExperience quest;
               totalExperience' = totalExperience ctx + experienceGained;
               newLevel = totalExperience' div 100 + 1;
               leveledUp = (newLevel > heroLevel ctx);
               ctx' =
                 \<lparr>currentQuest = None,
                  completedQuests = completedQuests ctx @ [quest],
                  totalExperience = totalExperience',
                  heroLevel = newLevel\<rparr>;
               victoryMessage = getVictoryMessage (mathRandom e 0);
               levelUpMessage =
                 (if leveledUp then
                    ''\<newline>\<newline>'' @ glyph_star @ '' **LEVEL UP!** You are now a Level '' @
                    decimal (heroLevel ctx') @ '' Debug Hero!''
                  else '''')
           in (Inr \<lparr>message =
                       victoryMessage @ levelUpMessage @ ''\<newline>\<newline>**Quest Summary:** '' @ title quest @
                       ''\<newline>**Solution:** '' @ orElse solutionSummary ''Bug successfully eliminated!'' @
                       ''\<newline>**Experience Gained:** '' @ decimal experienceGained @
                       '' XP\<newline>**Time Taken:** '' @
                       numberToString ((now e - startedAt quest) div (1000 * 60)) @ '' minutes'',
                     questions =
                       [''What did you learn from this quest that you'll apply to future challenges?'',
                        ''How might you prevent similar bugs from appearing in the future?'',
                        ''What debugging techniques proved most effective for this type of issue?''],
                     encouragement =
                       ''Your growing expertise makes the digital realm safer for all!'',
                     nextSuggestions =
                       [''Document your solution for future reference'',
                        ''Share your knowledge with fellow developers'',
                        ''Stay vigilant for new debugging challenges'']\<rparr>,
               ctx')))"

section \<open>The properties' vocabulary\<close>

subsection \<open>The decision list for severity\<close>

text \<open>
  The rules for the severity as a table: the keyword set of each rule, the rule as
  a test on the description and the urgency, and the list of rules in their order, read
  by taking the label of the first rule that matches. A keyword is contained when it is
  a substring of the lowered text. The urgency is a string for the engine, tested by
  containment as well, and the \<open>HYDRA\<close> rule counts \<open>and\<close> the way \<open>match_and\<close> does.
\<close>

definition dragon_keywords :: "string list" where
  "dragon_keywords = [''crash'', ''down'', ''critical'', ''production'', ''outage'']"

definition hydra_keywords :: "string list" where
  "hydra_keywords = [''multiple'', ''several'', ''various'', ''complex'']"

definition troll_keywords :: "string list" where
  "troll_keywords = [''slow'', ''performance'', ''timeout'', ''integration'', ''api'', ''database'']"

definition orc_keywords :: "string list" where
  "orc_keywords = [''feature'', ''logic'', ''unexpected'']"

definition containsAny :: "string \<Rightarrow> string list \<Rightarrow> bool" where
  "containsAny text keywords = list_ex (\<lambda>k. str_includes (toLowerCase text) k) keywords"

definition urgencyContains :: "string option \<Rightarrow> string \<Rightarrow> bool" where
  "urgencyContains urgency k = (case urgency of None \<Rightarrow> False | Some u \<Rightarrow> str_includes (toLowerCase u) k)"

definition dragon_rule :: "string \<Rightarrow> string option \<Rightarrow> bool" where
  "dragon_rule d u = (containsAny d dragon_keywords \<or> urgencyContains u ''critical'')"

definition hydra_rule :: "string \<Rightarrow> bool" where
  "hydra_rule d = (containsAny d hydra_keywords \<or> 2 < length (match_and (toLowerCase d)))"

definition troll_rule :: "string \<Rightarrow> bool" where
  "troll_rule d = containsAny d troll_keywords"

definition orc_rule :: "string \<Rightarrow> string option \<Rightarrow> bool" where
  "orc_rule d u = (containsAny d orc_keywords \<or> urgencyContains u ''moderate'')"

fun first_match :: "(bool \<times> 'a) list \<Rightarrow> 'a \<Rightarrow> 'a" where
  "first_match [] dflt = dflt"
| "first_match ((b, v) # rules) dflt = (if b then v else first_match rules dflt)"

definition severity_rules :: "string \<Rightarrow> string option \<Rightarrow> (bool \<times> BugSeverity) list" where
  "severity_rules d u =
     [(dragon_rule d u, DRAGON), (hydra_rule d, HYDRA), (troll_rule d, TROLL), (orc_rule d u, ORC)]"

text \<open>
  The words of a text: its maximal runs of letters, digits and underscores. Counting the
  word \<open>and\<close> among them is the reading of the \<open>HYDRA\<close> rule that counts tokens.
\<close>

definition isWordChar :: "char \<Rightarrow> bool" where
  "isWordChar c = (c \<in> set ''abcdefghijklmnopqrstuvwxyzABCDEFGHIJKLMNOPQRSTUVWXYZ0123456789_'')"

fun split_words :: "string \<Rightarrow> string \<Rightarrow> string list" where
  "split_words w [] = (if w = [] then [] else [w])"
| "split_words w (c # cs) =
     (if isWordChar c then split_words (w @ [c]) cs
      else (if w = [] then [] else [w]) @ split_words [] cs)"

definition and_token_count :: "string \<Rightarrow> nat" where
  "and_token_count d = length (filter (\<lambda>w. w = ''and'') (split_words [] (toLowerCase d)))"

subsection \<open>The phase rule and the reward\<close>

text \<open>
  The order of the phases, the phase that follows from a phase and the findings recorded
  so far, and the base reward of each severity.
\<close>

fun phaseRank :: "QuestPhase \<Rightarrow> nat" where
  "phaseRank PREPARATION = 0"
| "phaseRank INVESTIGATION = 1"
| "phaseRank BATTLE = 2"
| "phaseRank VICTORY = 3"

definition advance_rule :: "QuestPhase \<Rightarrow> QuestFinding list \<Rightarrow> QuestPhase" where
  "advance_rule p fs =
     (if p = PREPARATION \<and> 3 \<le> length fs then INVESTIGATION
      else if p = INVESTIGATION \<and> (6 \<le> length fs \<or> (\<exists>x \<in> set fs. significance x = Breakthrough))
      then BATTLE
      else p)"

fun base_xp :: "BugSeverity \<Rightarrow> nat" where
  "base_xp GOBLIN = 10"
| "base_xp ORC = 25"
| "base_xp TROLL = 50"
| "base_xp DRAGON = 100"
| "base_xp HYDRA = 150"

subsection \<open>Sequences of operations\<close>

text \<open>
  The operations a caller applies to a quest that is open, each with the host values of
  its call. \<^verbatim>\<open>getQuestStatus\<close> only reads the context, so its step leaves it as it is.
  \<open>trace\<close> lists the contexts a sequence of calls goes through and \<open>run\<close> gives the
  last one.

  A quest opened when the history holds \<open>n\<close> quests is the current quest until it is
  closed, and from then on the entry \<open>n\<close> of the history: \<open>tracking n\<close> says that the
  context holds it in one of the two places, and \<open>trackedPhase n\<close> reads its phase there.
\<close>

datatype operation =
  AppendFinding string "Significance option"
| SeekWisdom string
| Status
| Close "string option"

fun step :: "operation \<Rightarrow> env \<Rightarrow> AdventureContext \<Rightarrow> AdventureContext" where
  "step (AppendFinding f s) e ctx = snd (continueQuest f s e ctx)"
| "step (SeekWisdom h) e ctx = snd (seekWisdom h e ctx)"
| "step Status e ctx = ctx"
| "step (Close sol) e ctx = snd (completeQuest sol e ctx)"

fun trace :: "(operation \<times> env) list \<Rightarrow> AdventureContext \<Rightarrow> AdventureContext list" where
  "trace [] ctx = [ctx]"
| "trace ((op, e) # calls) ctx = ctx # trace calls (step op e ctx)"

fun run :: "(operation \<times> env) list \<Rightarrow> AdventureContext \<Rightarrow> AdventureContext" where
  "run [] ctx = ctx"
| "run ((op, e) # calls) ctx = run calls (step op e ctx)"

definition tracking :: "nat \<Rightarrow> AdventureContext \<Rightarrow> bool" where
  "tracking n ctx =
     (case currentQuest ctx of
        Some q \<Rightarrow> length (completedQuests ctx) = n
      | None \<Rightarrow> n < length (completedQuests ctx))"

fun isClose :: "operation \<Rightarrow> bool" where
  "isClose (Close sol) = True"
| "isClose _ = False"

definition trackedPhase :: "nat \<Rightarrow> AdventureContext \<Rightarrow> QuestPhase option" where
  "trackedPhase n ctx =
     (case currentQuest ctx of
        Some q \<Rightarrow> Some (phase q)
      | None \<Rightarrow>
          if n < length (completedQuests ctx) then Some (phase (completedQuests ctx ! n))
          else None)"

subsection \<open>The quest after an append and after a close\<close>

text \<open>
  Names for the quest that \<^verbatim>\<open>continueQuest\<close> hands to \<^verbatim>\<open>updateQuestPhase\<close> and for the
  quest that \<^verbatim>\<open>completeQuest\<close> archives; the lemmas on the two operations are stated
  with them.
\<close>

definition appendedQuest :: "string \<Rightarrow> Significance option \<Rightarrow> env \<Rightarrow> Quest \<Rightarrow> Quest" where
  "appendedQuest f s e q =
     q\<lparr>findings := findings q @
         [\<lparr>timestamp = now e, finding = f,
           significance = (case s of None \<Rightarrow> Moderate | Some x \<Rightarrow> x)\<rparr>]\<rparr>"

definition closedQuest :: "string option \<Rightarrow> env \<Rightarrow> Quest \<Rightarrow> Quest" where
  "closedQuest sol e q =
     q\<lparr>phase := VICTORY,
       milestones := milestones q @
         [\<lparr>timestampM = now e, titleM = ''Quest Completed!'',
           descriptionM = orElse sol ''Hero successfully vanquished the bug!'',
           phaseM = VICTORY\<rparr>]\<rparr>"

subsection \<open>Example host, quest and calls\<close>

text \<open>
  A host whose clock reads 0 and whose random values are all 0, the quest opened for the
  description \<open>typo in label\<close> on the initial context, and sequences of calls on it.
\<close>

definition env0 :: env where
  "env0 = \<lparr>now = 0, mathRandom = (\<lambda>k. 0), idSuffix = ''4fzzzxjyl''\<rparr>"

definition exampleQuest :: Quest where
  "exampleQuest = fst (fst (startQuest ''typo in label'' None None env0 initialContext))"

definition exampleContext :: AdventureContext where
  "exampleContext = snd (startQuest ''typo in label'' None None env0 initialContext)"

definition noteCalls :: "nat \<Rightarrow> (operation \<times> env) list" where
  "noteCalls n = replicate n (AppendFinding ''note'' None, env0)"

definition exampleCalls :: "(operation \<times> env) list" where
  "exampleCalls =
     noteCalls 3 @
     [(SeekWisdom ''approach'', env0), (Status, env0), (Close None, env0),
      (AppendFinding ''late'' None, env0)]"

section \<open>Effects of the operations on the context\<close>

lemma startQuest_quest:
  "fst (fst (startQuest d ts u e ctx)) =
     \<lparr>quest_id = generateQuestId e,
      title = generateQuestTitle (classifyBugSeverity d u) (classifyQuestType d ts),
      description = d,
      bugSeverity = classifyBugSeverity d u,
      questType = classifyQuestType d ts,
      phase = PREPARATION,
      startedAt = now e,
      techStack = ts,
      findings = [],
      milestones = []\<rparr>"
  by (simp add: startQuest_def Let_def)

lemma startQuest_ctx:
  "snd (startQuest d ts u e ctx) = ctx\<lparr>currentQuest := Some (fst (fst (startQuest d ts u e ctx)))\<rparr>"
  by (simp add: startQuest_def Let_def)

lemma updateQuestPhase_phase:
  "phase (updateQuestPhase e q) =
     (if phase q = PREPARATION \<and> 3 \<le> length (findings q) then INVESTIGATION
      else if phase q = INVESTIGATION \<and>
              ((\<exists>x \<in> set (findings q). significance x = Breakthrough) \<or> 6 \<le> length (findings q))
      then BATTLE
      else phase q)"
  by (simp add: updateQuestPhase_def addMilestone_def Let_def list_ex_iff)

lemma updateQuestPhase_milestones:
  "milestones (updateQuestPhase e q) =
     (if phase (updateQuestPhase e q) = phase q then milestones q
      else milestones q @
        [\<lparr>timestampM = now e,
          titleM = (if phase q = PREPARATION then ''Investigation Phase'' else ''Battle Phase''),
          descriptionM =
            (if phase q = PREPARATION
             then ''Gathered enough information to begin deeper investigation''
             else ''Ready to implement and test solutions''),
          phaseM = phase (updateQuestPhase e q)\<rparr>])"
  by (simp add: updateQuestPhase_def addMilestone_def Let_def list_ex_iff)

lemma updateQuestPhase_frame:
  "findings (updateQuestPhase e q) = findings q"
  "bugSeverity (updateQuestPhase e q) = bugSeverity q"
  "questType (updateQuestPhase e q) = questType q"
  by (simp_all add: updateQuestPhase_def addMilestone_def Let_def)

lemma continueQuest_snd:
  "snd (continueQuest f s e ctx) =
     (case currentQuest ctx of
        None \<Rightarrow> ctx
      | Some q \<Rightarrow> ctx\<lparr>currentQuest := Some (updateQuestPhase e (appendedQuest f s e q))\<rparr>)"
  by (simp add: continueQuest_def Let_def appendedQuest_def split: option.split)

lemma seekWisdom_ctx: "snd (seekWisdom h e ctx) = ctx"
  by (simp add: seekWisdom_def Let_def split: option.split prod.split)

lemma completeQuest_snd:
  "snd (completeQuest sol e ctx) =
     (case currentQuest ctx of
        None \<Rightarrow> ctx
      | Some q \<Rightarrow>
          ctx\<lparr>currentQuest := None,
              completedQuests := completedQuests ctx @ [closedQuest sol e q],
              totalExperience := totalExperience ctx + calculateExperience (closedQuest sol e q),
              heroLevel := (totalExperience ctx + calculateExperience (closedQuest sol e q)) div 100 + 1\<rparr>)"
  by (simp add: completeQuest_def Let_def closedQuest_def split: option.split)

lemma calculateExperience_eq:
  "calculateExperience q = base_xp (bugSeverity q) + 2 * length (findings q) + 5 * length (milestones q)"
  by (cases "bugSeverity q") (simp_all add: calculateExperience_def Let_def)

lemma exampleContext_current: "currentQuest exampleContext = Some exampleQuest"
  by (simp add: exampleContext_def exampleQuest_def startQuest_ctx)

lemma exampleQuest_fields:
  "phase exampleQuest = PREPARATION" "findings exampleQuest = []" "milestones exampleQuest = []"
  by (simp_all add: exampleQuest_def startQuest_quest)

lemma updateQuestPhase_advance_rule:
  "phase (updateQuestPhase e q) = advance_rule (phase q) (findings q)"
  by (auto simp: updateQuestPhase_phase advance_rule_def)

lemma continueQuest_effect:
  assumes "currentQuest ctx = Some q"
  shows "\<exists>q' x. currentQuest (snd (continueQuest f s e ctx)) = Some q' \<and>
           findings q' = findings q @ [x] \<and> finding x = f \<and>
           significance x = (case s of None \<Rightarrow> Moderate | Some v \<Rightarrow> v) \<and>
           bugSeverity q' = bugSeverity q \<and>
           phase q' = advance_rule (phase q) (findings q') \<and>
           length (milestones q') = length (milestones q) + (if phase q' = phase q then 0 else 1) \<and>
           (phase q' = phase q \<longrightarrow> milestones q' = milestones q)"
proof -
  let ?x = "\<lparr>timestamp = now e, finding = f,
        significance = (case s of None \<Rightarrow> Moderate | Some v \<Rightarrow> v)\<rparr>"
  let ?a = "appendedQuest f s e q"
  let ?q' = "updateQuestPhase e ?a"
  have a: "findings ?a = findings q @ [?x]"
    "phase ?a = phase q" "milestones ?a = milestones q" "bugSeverity ?a = bugSeverity q"
    by (simp_all add: appendedQuest_def)
  have 1: "currentQuest (snd (continueQuest f s e ctx)) = Some ?q'"
    using assms by (simp add: continueQuest_snd)
  have 2: "findings ?q' = findings q @ [?x]" "bugSeverity ?q' = bugSeverity q"
    by (simp_all add: updateQuestPhase_frame a)
  have 3: "phase ?q' = advance_rule (phase q) (findings ?q')"
    by (simp add: updateQuestPhase_advance_rule updateQuestPhase_frame a)
  have 4: "length (milestones ?q') = length (milestones q) + (if phase ?q' = phase q then 0 else 1)"
    "phase ?q' = phase q \<longrightarrow> milestones ?q' = milestones q"
    by (subst updateQuestPhase_milestones, simp add: a)+
  have 5: "finding ?x = f" "significance ?x = (case s of None \<Rightarrow> Moderate | Some v \<Rightarrow> v)"
    by simp_all
  from 1 2 3 4 5 show ?thesis by blast
qed

lemma advance_rule_rank:
  "phaseRank (advance_rule p fs) = phaseRank p \<or> phaseRank (advance_rule p fs) = Suc (phaseRank p)"
  by (simp add: advance_rule_def)

lemma advance_rule_VICTORY: "advance_rule p fs = VICTORY \<Longrightarrow> p = VICTORY"
  by (simp add: advance_rule_def split: if_splits)

lemma continueQuest_preparation_short:
  assumes "currentQuest ctx = Some q" "phase q = PREPARATION" "length (findings q) < 2"
  shows "\<exists>q'. currentQuest (snd (continueQuest f s e ctx)) = Some q' \<and> phase q' = PREPARATION \<and>
           length (findings q') = Suc (length (findings q)) \<and> milestones q' = milestones q \<and>
           bugSeverity q' = bugSeverity q"
proof -
  from continueQuest_effect [OF assms(1), of f s e] obtain q' x where
    q': "currentQuest (snd (continueQuest f s e ctx)) = Some q'"
      "findings q' = findings q @ [x]"
      "bugSeverity q' = bugSeverity q"
      "phase q' = advance_rule (phase q) (findings q')"
      "phase q' = phase q \<longrightarrow> milestones q' = milestones q"
    by blast
  from q'(2,4) assms(2,3) have "phase q' = PREPARATION"
    by (simp add: advance_rule_def)
  with q' assms(2) show ?thesis by simp
qed

lemma two_findings_after_start:
  "\<exists>q. currentQuest (snd (continueQuest f2 s2 e2 (snd (continueQuest f1 s1 e1
            (snd (startQuest d ts u e0 ctx0)))))) = Some q \<and>
        phase q = PREPARATION \<and> length (findings q) = 2 \<and> milestones q = [] \<and>
        bugSeverity q = classifyBugSeverity d u"
proof -
  let ?c0 = "snd (startQuest d ts u e0 ctx0)"
  let ?q0 = "fst (fst (startQuest d ts u e0 ctx0))"
  have c0: "currentQuest ?c0 = Some ?q0" by (simp add: startQuest_ctx)
  have q0: "phase ?q0 = PREPARATION" "findings ?q0 = []" "milestones ?q0 = []"
    "bugSeverity ?q0 = classifyBugSeverity d u"
    by (simp_all add: startQuest_quest)
  have "length (findings ?q0) < 2" by (simp add: q0)
  from continueQuest_preparation_short [OF c0 q0(1) this, of f1 s1 e1] obtain q1 where
    q1: "currentQuest (snd (continueQuest f1 s1 e1 ?c0)) = Some q1" "phase q1 = PREPARATION"
      "length (findings q1) = Suc (length (findings ?q0))" "milestones q1 = milestones ?q0"
      "bugSeverity q1 = bugSeverity ?q0"
    by blast
  have "length (findings q1) < 2" by (simp add: q1 q0)
  from continueQuest_preparation_short [OF q1(1,2) this, of f2 s2 e2] obtain q2 where
    q2: "currentQuest (snd (continueQuest f2 s2 e2 (snd (continueQuest f1 s1 e1 ?c0)))) = Some q2"
    "phase q2 = PREPARATION" "length (findings q2) = Suc (length (findings q1))"
    "milestones q2 = milestones q1" "bugSeverity q2 = bugSeverity q1"
    by blast
  have "length (findings q2) = 2" "milestones q2 = []" "bugSeverity q2 = classifyBugSeverity d u"
    by (simp_all add: q2 q1 q0)
  with q2(1,2) show ?thesis by blast
qed

lemma phaseRank_le: "phaseRank p \<le> 3"
  by (cases p) simp_all

lemma step_closed: "currentQuest ctx = None \<Longrightarrow> step op e ctx = ctx"
  by (cases op) (simp_all add: continueQuest_snd seekWisdom_ctx completeQuest_snd)

lemma continueQuest_frame:
  "completedQuests (snd (continueQuest f s e ctx)) = completedQuests ctx"
  "totalExperience (snd (continueQuest f s e ctx)) = totalExperience ctx"
  "heroLevel (snd (continueQuest f s e ctx)) = heroLevel ctx"
  by (simp_all add: continueQuest_snd split: option.split)

lemma step_tracked:
  assumes "tracking n ctx"
  shows "tracking n (step op e ctx) \<and>
         (\<exists>p p'. trackedPhase n ctx = Some p \<and> trackedPhase n (step op e ctx) = Some p' \<and>
            phaseRank p \<le> phaseRank p' \<and> (p' = VICTORY \<longrightarrow> p = VICTORY \<or> isClose op))"
proof (cases "currentQuest ctx")
  case None
  with assms show ?thesis
    by (simp add: step_closed tracking_def trackedPhase_def)
next
  case (Some q)
  with assms have n: "length (completedQuests ctx) = n"
    by (simp add: tracking_def)
  have p: "trackedPhase n ctx = Some (phase q)"
    using Some by (simp add: trackedPhase_def)
  show ?thesis
  proof (cases op)
    case (AppendFinding f s)
    from continueQuest_effect [OF Some, of f s e] obtain q' where
      q': "currentQuest (snd (continueQuest f s e ctx)) = Some q'"
        "phase q' = advance_rule (phase q) (findings q')"
      by blast
    from q'(2) have "phaseRank (phase q) \<le> phaseRank (phase q')"
      using advance_rule_rank [of "phase q" "findings q'"] by auto
    moreover from q'(2) have "phase q' = VICTORY \<longrightarrow> phase q = VICTORY"
      using advance_rule_VICTORY [of "phase q" "findings q'"] by auto
    ultimately show ?thesis
      using q'(1) n p AppendFinding
      by (simp add: tracking_def trackedPhase_def continueQuest_frame)
  next
    case (SeekWisdom h)
    with assms p show ?thesis by (simp add: seekWisdom_ctx)
  next
    case Status
    with assms p show ?thesis by simp
  next
    case (Close sol)
    have "(completedQuests ctx @ [closedQuest sol e q]) ! n = closedQuest sol e q"
      unfolding n [symmetric] by simp
    moreover have "phase (closedQuest sol e q) = VICTORY"
      by (simp add: closedQuest_def)
    ultimately show ?thesis
      using Some n p Close
      by (simp add: completeQuest_snd tracking_def trackedPhase_def phaseRank_le)
  qed
qed

lemma trace_phases:
  "tracking n ctx \<Longrightarrow>
   \<exists>p0 ps. trackedPhase n ctx = Some p0 \<and>
     map (trackedPhase n) (trace calls ctx) = map Some (p0 # ps) \<and>
     sorted (map phaseRank (p0 # ps)) \<and>
     (p0 \<noteq> VICTORY \<and> (\<forall>c \<in> set calls. \<not> isClose (fst c)) \<longrightarrow> VICTORY \<notin> set (p0 # ps))"
proof (induction calls arbitrary: ctx)
  case Nil
  from step_tracked [OF Nil, of Status undefined] obtain p where "trackedPhase n ctx = Some p"
    by auto
  then show ?case by simp
next
  case (Cons c calls)
  obtain op e where c: "c = (op, e)" by (cases c)
  from step_tracked [OF Cons.prems, of op e] obtain p p' where
    s: "tracking n (step op e ctx)" "trackedPhase n ctx = Some p"
      "trackedPhase n (step op e ctx) = Some p'" "phaseRank p \<le> phaseRank p'"
      "p' = VICTORY \<longrightarrow> p = VICTORY \<or> isClose op"
    by blast
  from Cons.IH [OF s(1)] obtain p0 ps where
    ih0: "trackedPhase n (step op e ctx) = Some p0"
      "map (trackedPhase n) (trace calls (step op e ctx)) = map Some (p0 # ps)"
      "sorted (map phaseRank (p0 # ps))"
      "p0 \<noteq> VICTORY \<and> (\<forall>c \<in> set calls. \<not> isClose (fst c)) \<longrightarrow> VICTORY \<notin> set (p0 # ps)"
    by blast
  from ih0(1) s(3) have "p0 = p'" by simp
  with ih0 have
    ih: "map (trackedPhase n) (trace calls (step op e ctx)) = map Some (p' # ps)"
      "sorted (map phaseRank (p' # ps))"
      "p' \<noteq> VICTORY \<and> (\<forall>c \<in> set calls. \<not> isClose (fst c)) \<longrightarrow> VICTORY \<notin> set (p' # ps)"
    by simp_all
  have 1: "map (trackedPhase n) (trace (c # calls) ctx) = map Some (p # p' # ps)"
    using c s(2) ih(1) by simp
  have 2: "sorted (map phaseRank (p # p' # ps))"
    using ih(2) s(4) by auto
  have 3: "p \<noteq> VICTORY \<and> (\<forall>c \<in> set (c # calls). \<not> isClose (fst c)) \<longrightarrow>
           VICTORY \<notin> set (p # p' # ps)"
    using ih(3) s(5) c by auto
  from s(2) 1 2 3 show ?case by blast
qed



subsection \<open>Evaluating the classifiers and the examples\<close>

lemma urgency_lower': "k \<noteq> [] \<Longrightarrow> str_includes (orElse (map_option toLowerCase u) []) k = urgencyContains u k"
  by (cases u) (auto simp: orElse_def urgencyContains_def)

lemmas classify_eval =
  toLowerCase_def charToLower_def orElse_def containsAny_def urgencyContains_def
  dragon_keywords_def hydra_keywords_def troll_keywords_def orc_keywords_def
  dragon_rule_def hydra_rule_def troll_rule_def orc_rule_def severity_rules_def

lemma classifyQuestType_techStack_unused:
  "classifyQuestType d ts = classifyQuestType d None"
  by (simp add: classifyQuestType_def Let_def)

lemma noteCalls_numeral:
  "noteCalls (numeral k) = (AppendFinding ''note'' None, env0) # noteCalls (pred_numeral k)"
  "noteCalls (Suc n) = (AppendFinding ''note'' None, env0) # noteCalls n"
  "noteCalls 0 = []"
  by (simp_all add: noteCalls_def numeral_eq_Suc)

lemmas example_eval =
  noteCalls_numeral run.simps step.simps continueQuest_snd exampleContext_def exampleQuest_def
  startQuest_ctx startQuest_quest updateQuestPhase_def addMilestone_def appendedQuest_def
  Let_def initialContext_def

lemma example_after_2:
  "\<exists>q. currentQuest (run (noteCalls 2) exampleContext) = Some q \<and> phase q = PREPARATION \<and>
        length (findings q) = 2 \<and> (\<forall>x \<in> set (findings q). significance x = Moderate) \<and>
        milestones q = [] \<and> completedQuests (run (noteCalls 2) exampleContext) = []"
  by (simp add: example_eval)

lemma example_after_3:
  "\<exists>q. currentQuest (run (noteCalls 3) exampleContext) = Some q \<and> phase q = INVESTIGATION \<and>
        length (findings q) = 3 \<and> (\<forall>x \<in> set (findings q). significance x = Moderate)"
  by (simp add: example_eval)

lemma example_after_5:
  "\<exists>q. currentQuest (run (noteCalls 5) exampleContext) = Some q \<and> phase q = INVESTIGATION \<and>
        length (findings q) = 5 \<and> (\<forall>x \<in> set (findings q). significance x = Moderate)"
  by (simp add: example_eval)

lemma example_after_6:
  "\<exists>q. currentQuest (run (noteCalls 6) exampleContext) = Some q \<and> phase q = BATTLE \<and>
        length (findings q) = 6 \<and> (\<forall>x \<in> set (findings q). significance x = Moderate)"
  by (simp add: example_eval)

lemma run_two_notes:
  "run (noteCalls 2) exampleContext =
     snd (continueQuest ''note'' None env0 (snd (continueQuest ''note'' None env0
       (snd (startQuest ''typo in label'' None None env0 initialContext)))))"
  by (simp add: noteCalls_numeral exampleContext_def)

lemma typo_is_goblin: "classifyBugSeverity ''typo in label'' None = GOBLIN"
  by (simp add: classifyBugSeverity_def toLowerCase_def charToLower_def orElse_def)

lemma exampleContext_completed: "completedQuests exampleContext = []"
  by (simp add: exampleContext_def startQuest_ctx initialContext_def)

lemma noteCalls_not_close: "\<forall>c \<in> set (noteCalls n). \<not> isClose (fst c)"
  by (simp add: noteCalls_def)

lemma exampleCalls_trace:
  "map (trackedPhase 0) (trace exampleCalls exampleContext) =
     map Some [PREPARATION, PREPARATION, PREPARATION, INVESTIGATION, INVESTIGATION,
       INVESTIGATION, VICTORY, VICTORY]"
  by (simp add: exampleCalls_def example_eval seekWisdom_ctx completeQuest_snd
        closedQuest_def trackedPhase_def)

section \<open>The claims\<close>

subsection \<open>C1: operations that need a quest, called without one\<close>

text \<open>
  C1 as the spec states it: with no current quest, \<^verbatim>\<open>continueQuest\<close>, \<^verbatim>\<open>seekWisdom\<close>
  and \<^verbatim>\<open>completeQuest\<close> fail with the error \<open>NoActiveQuestError\<close>, a result that is not
  a guidance payload. It does not hold: on the initial context each of the three returns
  a \<^verbatim>\<open>MentorResponse\<close>.
\<close>

theorem no_quest_is_error_counterexample:
  "currentQuest initialContext = None \<and>
   fst (continueQuest ''the test fails'' None env0 initialContext) \<noteq> Inl NoActiveQuestError \<and>
   fst (seekWisdom ''approach'' env0 initialContext) \<noteq> Inl NoActiveQuestError \<and>
   fst (completeQuest None env0 initialContext) \<noteq> Inl NoActiveQuestError"
  by (simp add: initialContext_def continueQuest_def seekWisdom_def completeQuest_def)

text \<open>
  C1, amended: with no current quest, each of the three operations returns normally an
  ordinary \<^verbatim>\<open>MentorResponse\<close>, with a message of its own, no questions, a fixed
  encouragement and one suggestion, whatever its arguments and the host values; and it
  leaves the whole context (current-quest slot and hero progress) as it was.
\<close>

theorem no_quest_returns_payload:
  "currentQuest ctx = None \<Longrightarrow>
   continueQuest f s e ctx =
     (Inr \<lparr>message =
             ''No active quest found! Use 'start_quest' to begin your debugging adventure.'',
           questions = [],
           encouragement = ''Ready to embark on a new debugging quest?'',
           nextSuggestions = [''Start a new quest to begin your debugging journey'']\<rparr>,
      ctx) \<and>
   seekWisdom h e ctx =
     (Inr \<lparr>message =
             ''Start a quest first, brave hero! I can only provide guidance '' @
             ''when you have an active debugging challenge.'',
           questions = [],
           encouragement = ''Every great adventure begins with a single step!'',
           nextSuggestions = [''Begin a new debugging quest'']\<rparr>,
      ctx) \<and>
   completeQuest sol e ctx =
     (Inr \<lparr>message =
             ''No active quest to complete! Start a new adventure when you're ready.'',
           questions = [],
           encouragement = ''Every master was once a beginner!'',
           nextSuggestions = [''Begin a new debugging quest'']\<rparr>,
      ctx)"
  by (simp add: continueQuest_def seekWisdom_def completeQuest_def)

text \<open>The initial context has no quest; there the three calls give back the context.\<close>

theorem no_quest_returns_payload_witness:
  "currentQuest initialContext = None \<and>
   snd (continueQuest ''the test fails'' None env0 initialContext) = initialContext \<and>
   snd (seekWisdom ''approach'' env0 initialContext) = initialContext \<and>
   snd (completeQuest None env0 initialContext) = initialContext \<and>
   map_sum id questions (fst (continueQuest ''the test fails'' None env0 initialContext)) = Inr [] \<and>
   map_sum id questions (fst (seekWisdom ''approach'' env0 initialContext)) = Inr [] \<and>
   map_sum id questions (fst (completeQuest None env0 initialContext)) = Inr []"
proof -
  have h: "currentQuest initialContext = None"
    by (simp add: initialContext_def)
  from no_quest_returns_payload [OF h, of "''the test fails''" None env0 "''approach''" None] h
  show ?thesis by simp
qed

subsection \<open>C2: the technology tags in the category\<close>

text \<open>
  C2 says that \<^verbatim>\<open>classifyQuestType\<close> scans the description together with the
  \<^verbatim>\<open>techStack\<close> text, so that the tag \<open>css\<close> alone selects the category of the user
  interface. The code joins and lowers the tags into \<open>stackString\<close> and then never
  reads it: with a description that has no keyword and the tag \<open>css\<close> the result is the
  default \<open>LOGIC_QUEST\<close>, the same as without the tag, while \<open>css\<close> in the description
  gives \<open>UI_QUEST\<close>.
\<close>

theorem classifyQuestType_ignores_techStack:
  "classifyQuestType ''the page looks wrong'' (Some [''css'']) = LOGIC_QUEST \<and>
   classifyQuestType ''the page looks wrong'' None = LOGIC_QUEST \<and>
   classifyQuestType ''the css looks wrong'' None = UI_QUEST"
  by (simp add: classifyQuestType_def toLowerCase_def charToLower_def orElse_def)

subsection \<open>C3: the severity is the first rule that matches\<close>

text \<open>
  C3: \<^verbatim>\<open>classifyBugSeverity\<close> is a decision list in the order \<open>DRAGON\<close>, \<open>HYDRA\<close>,
  \<open>TROLL\<close>, \<open>ORC\<close>, with \<open>GOBLIN\<close> when no rule matches: its result is the label of
  the first rule of the list that matches. In particular a description that contains,
  in any letter case, one of the \<open>DRAGON\<close> keywords is \<open>DRAGON\<close> whatever else it
  contains and whatever the urgency.
\<close>

theorem classifyBugSeverity_decision_list:
  "classifyBugSeverity d u = first_match (severity_rules d u) GOBLIN \<and>
   (containsAny d dragon_keywords \<longrightarrow> classifyBugSeverity d u = DRAGON)"
  unfolding classifyBugSeverity_def severity_rules_def dragon_rule_def hydra_rule_def
    troll_rule_def orc_rule_def containsAny_def dragon_keywords_def hydra_keywords_def
    troll_keywords_def orc_keywords_def Let_def
  by (simp add: urgency_lower')

text \<open>
  A description with a \<open>DRAGON\<close> and a \<open>TROLL\<close> keyword, and one description for each
  other pair of neighbouring rules.
\<close>

theorem classifyBugSeverity_decision_list_witness:
  "containsAny ''Production database is slow'' dragon_keywords \<and>
   troll_rule ''Production database is slow'' \<and>
   classifyBugSeverity ''Production database is slow'' None = DRAGON \<and>
   classifyBugSeverity ''a complex crash'' None = DRAGON \<and>
   classifyBugSeverity ''unexpected outage'' None = DRAGON \<and>
   classifyBugSeverity ''several slow queries'' None = HYDRA \<and>
   classifyBugSeverity ''various unexpected results'' None = HYDRA \<and>
   classifyBugSeverity ''slow feature'' None = TROLL \<and>
   classifyBugSeverity ''feature request'' None = ORC \<and>
   classifyBugSeverity ''typo in label'' None = GOBLIN"
proof -
  have h: "containsAny ''Production database is slow'' dragon_keywords"
    by (simp add: classify_eval)
  have t: "troll_rule ''Production database is slow''"
    by (simp add: classify_eval)
  note D = classifyBugSeverity_decision_list [THEN conjunct2, rule_format]
  note L = classifyBugSeverity_decision_list [THEN conjunct1]
  have 1: "classifyBugSeverity ''Production database is slow'' None = DRAGON"
    by (rule D [OF h])
  have 2: "classifyBugSeverity ''a complex crash'' None = DRAGON"
    by (rule D) (simp add: classify_eval)
  have 3: "classifyBugSeverity ''unexpected outage'' None = DRAGON"
    by (rule D) (simp add: classify_eval)
  have 4: "classifyBugSeverity ''several slow queries'' None = HYDRA"
    by (subst L) (simp add: classify_eval)
  have 5: "classifyBugSeverity ''various unexpected results'' None = HYDRA"
    by (subst L) (simp add: classify_eval)
  have 6: "classifyBugSeverity ''slow feature'' None = TROLL"
    by (subst L) (simp add: classify_eval)
  have 7: "classifyBugSeverity ''feature request'' None = ORC"
    by (subst L) (simp add: classify_eval)
  have 8: "classifyBugSeverity ''typo in label'' None = GOBLIN"
    by (subst L) (simp add: classify_eval)
  from h t 1 2 3 4 5 6 7 8 show ?thesis by blast
qed

subsection \<open>C4: the count of \<open>and\<close> in the \<open>HYDRA\<close> rule\<close>

text \<open>
  C4 as the spec states it: without a \<open>DRAGON\<close> keyword and without one of
  \<open>multiple\<close>, \<open>several\<close>, \<open>various\<close>, \<open>complex\<close>, the result is \<open>HYDRA\<close> exactly
  when the word \<open>and\<close> occurs more than twice, so that \<open>standard sandbox candy\<close>, where
  \<open>and\<close> only occurs inside words, is not \<open>HYDRA\<close>. It does not hold: that description
  has no such word and the code answers \<open>HYDRA\<close>.
\<close>

theorem hydra_counts_substrings_counterexample:
  "\<not> containsAny ''standard sandbox candy'' dragon_keywords \<and>
   \<not> containsAny ''standard sandbox candy'' hydra_keywords \<and>
   and_token_count ''standard sandbox candy'' = 0 \<and>
   classifyBugSeverity ''standard sandbox candy'' None = HYDRA"
  by (simp add: classifyBugSeverity_def toLowerCase_def charToLower_def orElse_def
      containsAny_def dragon_keywords_def hydra_keywords_def and_token_count_def isWordChar_def)

text \<open>
  C4, amended: for a description without a \<open>DRAGON\<close> keyword and without one of the four
  \<open>HYDRA\<close> keywords, and an urgency that is absent or does not contain \<open>critical\<close>, the
  result is \<open>HYDRA\<close> exactly when the lowered description has more than two
  occurrences of the letter sequence \<open>and\<close>, counted from left to right without overlap
  and also inside larger words.
\<close>

theorem hydra_counts_substrings:
  "\<not> containsAny d dragon_keywords \<Longrightarrow> \<not> urgencyContains u ''critical'' \<Longrightarrow>
   \<not> containsAny d hydra_keywords \<Longrightarrow>
   (classifyBugSeverity d u = HYDRA) = (2 < length (match_and (toLowerCase d)))"
  unfolding classifyBugSeverity_def containsAny_def dragon_keywords_def hydra_keywords_def Let_def
  by (simp add: urgency_lower')

text \<open>Three occurrences inside words give \<open>HYDRA\<close>; one occurrence does not.\<close>

theorem hydra_counts_substrings_witness:
  "\<not> containsAny ''standard sandbox candy'' dragon_keywords \<and>
   \<not> urgencyContains None ''critical'' \<and>
   \<not> containsAny ''standard sandbox candy'' hydra_keywords \<and>
   classifyBugSeverity ''standard sandbox candy'' None = HYDRA \<and>
   classifyBugSeverity ''salt and pepper'' None \<noteq> HYDRA"
proof -
  have a: "\<not> containsAny ''standard sandbox candy'' dragon_keywords"
    "\<not> urgencyContains None ''critical''"
    "\<not> containsAny ''standard sandbox candy'' hydra_keywords"
    by (simp_all add: classify_eval)
  have b: "\<not> containsAny ''salt and pepper'' dragon_keywords"
    "\<not> containsAny ''salt and pepper'' hydra_keywords"
    by (simp_all add: classify_eval)
  have 1: "classifyBugSeverity ''standard sandbox candy'' None = HYDRA"
    by (subst hydra_counts_substrings [OF a]) (simp add: classify_eval)
  have 2: "classifyBugSeverity ''salt and pepper'' None \<noteq> HYDRA"
    by (subst hydra_counts_substrings [OF b(1) a(2) b(2)]) (simp add: classify_eval)
  from a 1 2 show ?thesis by blast
qed

subsection \<open>C5: when a finding advances the phase\<close>

text \<open>
  C5: a call of \<^verbatim>\<open>continueQuest\<close> on an open quest appends one finding (with the given
  text and significance, \<open>moderate\<close> when none is given) and then: from \<open>PREPARATION\<close>
  the phase becomes \<open>INVESTIGATION\<close> exactly when the quest now has at least 3 findings;
  from \<open>INVESTIGATION\<close> it becomes \<open>BATTLE\<close> exactly when the quest now has at least 6
  findings or some finding of its history is a breakthrough; from \<open>BATTLE\<close> it stays;
  and one milestone is added exactly when the phase changed. In particular, after
  \<^verbatim>\<open>startQuest\<close> and two findings the phase is \<open>PREPARATION\<close> with no milestone, and a
  third finding of any significance gives \<open>INVESTIGATION\<close> with exactly one milestone.
\<close>

theorem continueQuest_phase_advance:
  "(currentQuest ctx = Some q \<longrightarrow>
      (\<exists>q' x. currentQuest (snd (continueQuest f s e ctx)) = Some q' \<and>
         findings q' = findings q @ [x] \<and> finding x = f \<and>
         significance x = (case s of None \<Rightarrow> Moderate | Some v \<Rightarrow> v) \<and>
         (phase q = PREPARATION \<longrightarrow>
            phase q' = (if 3 \<le> length (findings q') then INVESTIGATION else PREPARATION)) \<and>
         (phase q = INVESTIGATION \<longrightarrow>
            phase q' =
              (if 6 \<le> length (findings q') \<or>
                  (\<exists>y \<in> set (findings q'). significance y = Breakthrough)
               then BATTLE else INVESTIGATION)) \<and>
         (phase q = BATTLE \<longrightarrow> phase q' = BATTLE) \<and>
         length (milestones q') = length (milestones q) + (if phase q' = phase q then 0 else 1))) \<and>
   (\<exists>q2. currentQuest (snd (continueQuest f2 s2 e2 (snd (continueQuest f1 s1 e1
             (snd (startQuest d ts u e0 ctx0)))))) = Some q2 \<and>
          phase q2 = PREPARATION \<and> milestones q2 = []) \<and>
   (\<exists>q3. currentQuest (snd (continueQuest f3 s3 e3 (snd (continueQuest f2 s2 e2
             (snd (continueQuest f1 s1 e1 (snd (startQuest d ts u e0 ctx0)))))))) = Some q3 \<and>
          phase q3 = INVESTIGATION \<and> length (milestones q3) = 1)"
proof (intro conjI impI)
  assume "currentQuest ctx = Some q"
  from continueQuest_effect [OF this, of f s e] obtain q' x where
    q': "currentQuest (snd (continueQuest f s e ctx)) = Some q'"
      "findings q' = findings q @ [x]" "finding x = f"
      "significance x = (case s of None \<Rightarrow> Moderate | Some v \<Rightarrow> v)"
      "phase q' = advance_rule (phase q) (findings q')"
      "length (milestones q') = length (milestones q) + (if phase q' = phase q then 0 else 1)"
    by blast
  have "phase q = PREPARATION \<longrightarrow>
            phase q' = (if 3 \<le> length (findings q') then INVESTIGATION else PREPARATION)"
    by (simp add: q'(5) advance_rule_def)
  moreover have "phase q = INVESTIGATION \<longrightarrow>
            phase q' =
              (if 6 \<le> length (findings q') \<or>
                  (\<exists>y \<in> set (findings q'). significance y = Breakthrough)
               then BATTLE else INVESTIGATION)"
    by (simp add: q'(5) advance_rule_def)
  moreover have "phase q = BATTLE \<longrightarrow> phase q' = BATTLE"
    by (simp add: q'(5) advance_rule_def)
  ultimately show "\<exists>q' x. currentQuest (snd (continueQuest f s e ctx)) = Some q' \<and>
         findings q' = findings q @ [x] \<and> finding x = f \<and>
         significance x = (case s of None \<Rightarrow> Moderate | Some v \<Rightarrow> v) \<and>
         (phase q = PREPARATION \<longrightarrow>
            phase q' = (if 3 \<le> length (findings q') then INVESTIGATION else PREPARATION)) \<and>
         (phase q = INVESTIGATION \<longrightarrow>
            phase q' =
              (if 6 \<le> length (findings q') \<or>
                  (\<exists>y \<in> set (findings q'). significance y = Breakthrough)
               then BATTLE else INVESTIGATION)) \<and>
         (phase q = BATTLE \<longrightarrow> phase q' = BATTLE) \<and>
         length (milestones q') = length (milestones q) + (if phase q' = phase q then 0 else 1)"
    using q'(1,2,3,4,6) by blast
next
  from two_findings_after_start [of f2 s2 e2 f1 s1 e1 d ts u e0 ctx0]
  show "\<exists>q2. currentQuest (snd (continueQuest f2 s2 e2 (snd (continueQuest f1 s1 e1
             (snd (startQuest d ts u e0 ctx0)))))) = Some q2 \<and>
          phase q2 = PREPARATION \<and> milestones q2 = []"
    by blast
next
  from two_findings_after_start [of f2 s2 e2 f1 s1 e1 d ts u e0 ctx0] obtain q2 where
    q2: "currentQuest (snd (continueQuest f2 s2 e2 (snd (continueQuest f1 s1 e1
             (snd (startQuest d ts u e0 ctx0)))))) = Some q2"
      "phase q2 = PREPARATION" "length (findings q2) = 2" "milestones q2 = []"
    by blast
  from continueQuest_effect [OF q2(1), of f3 s3 e3] obtain q3 x where
    q3: "currentQuest (snd (continueQuest f3 s3 e3 (snd (continueQuest f2 s2 e2
             (snd (continueQuest f1 s1 e1 (snd (startQuest d ts u e0 ctx0)))))))) = Some q3"
      "findings q3 = findings q2 @ [x]"
      "phase q3 = advance_rule (phase q2) (findings q3)"
      "length (milestones q3) = length (milestones q2) + (if phase q3 = phase q2 then 0 else 1)"
    by blast
  from q3(2,3) q2(2,3) have p: "phase q3 = INVESTIGATION"
    by (simp add: advance_rule_def)
  with q3(4) q2(2,4) have "length (milestones q3) = 1" by simp
  with p q3(1) show "\<exists>q3. currentQuest (snd (continueQuest f3 s3 e3 (snd (continueQuest f2 s2 e2
             (snd (continueQuest f1 s1 e1 (snd (startQuest d ts u e0 ctx0)))))))) = Some q3 \<and>
          phase q3 = INVESTIGATION \<and> length (milestones q3) = 1"
    by blast
qed

text \<open>
  One call from each phase, on states reached from the example quest: staying in
  \<open>PREPARATION\<close>, the third finding, staying in \<open>INVESTIGATION\<close>, a breakthrough, the
  sixth finding, and a call in \<open>BATTLE\<close>.
\<close>

theorem continueQuest_phase_advance_witness:
  "map_option phase (currentQuest (snd (continueQuest ''note'' None env0 exampleContext))) =
     Some PREPARATION \<and>
   map_option phase (currentQuest (snd (continueQuest ''note'' None env0
     (run (noteCalls 2) exampleContext)))) = Some INVESTIGATION \<and>
   map_option phase (currentQuest (snd (continueQuest ''note'' None env0
     (run (noteCalls 3) exampleContext)))) = Some INVESTIGATION \<and>
   map_option phase (currentQuest (snd (continueQuest ''fix found'' (Some Breakthrough) env0
     (run (noteCalls 3) exampleContext)))) = Some BATTLE \<and>
   map_option phase (currentQuest (snd (continueQuest ''note'' None env0
     (run (noteCalls 5) exampleContext)))) = Some BATTLE \<and>
   map_option phase (currentQuest (snd (continueQuest ''note'' None env0
     (run (noteCalls 6) exampleContext)))) = Some BATTLE"
proof -
  note T = continueQuest_phase_advance [THEN conjunct1, rule_format]
  have prep: "map_option phase (currentQuest (snd (continueQuest f s e ctx))) =
      Some (if 3 \<le> Suc (length (findings q)) then INVESTIGATION else PREPARATION)"
    if "currentQuest ctx = Some q" "phase q = PREPARATION" for ctx q f s e
  proof -
    from T [OF that(1), of f s e] that(2) obtain q' x where
      "currentQuest (snd (continueQuest f s e ctx)) = Some q'" "findings q' = findings q @ [x]"
      "phase q' = (if 3 \<le> length (findings q') then INVESTIGATION else PREPARATION)"
      by blast
    then show ?thesis by simp
  qed
  have inv: "map_option phase (currentQuest (snd (continueQuest f s e ctx))) =
      Some (if 6 \<le> Suc (length (findings q)) \<or>
               (\<exists>y \<in> set (findings q). significance y = Breakthrough) \<or>
               (case s of None \<Rightarrow> Moderate | Some v \<Rightarrow> v) = Breakthrough
            then BATTLE else INVESTIGATION)"
    if "currentQuest ctx = Some q" "phase q = INVESTIGATION" for ctx q f s e
  proof -
    from T [OF that(1), of f s e] that(2) obtain q' x where
      "currentQuest (snd (continueQuest f s e ctx)) = Some q'" "findings q' = findings q @ [x]"
      "significance x = (case s of None \<Rightarrow> Moderate | Some v \<Rightarrow> v)"
      "phase q' =
         (if 6 \<le> length (findings q') \<or> (\<exists>y \<in> set (findings q'). significance y = Breakthrough)
          then BATTLE else INVESTIGATION)"
      by blast
    then show ?thesis by auto
  qed
  have bat: "map_option phase (currentQuest (snd (continueQuest f s e ctx))) = Some BATTLE"
    if "currentQuest ctx = Some q" "phase q = BATTLE" for ctx q f s e
  proof -
    from T [OF that(1), of f s e] that(2) obtain q' where
      "currentQuest (snd (continueQuest f s e ctx)) = Some q'" "phase q' = BATTLE"
      by blast
    then show ?thesis by simp
  qed
  have 1: "map_option phase (currentQuest (snd (continueQuest ''note'' None env0 exampleContext))) =
     Some PREPARATION"
    using prep [OF exampleContext_current exampleQuest_fields(1)]
    by (simp add: exampleQuest_fields)
  from example_after_2 obtain q2 where
    q2: "currentQuest (run (noteCalls 2) exampleContext) = Some q2" "phase q2 = PREPARATION"
      "length (findings q2) = 2"
    by blast
  have 2: "map_option phase (currentQuest (snd (continueQuest ''note'' None env0
     (run (noteCalls 2) exampleContext)))) = Some INVESTIGATION"
    using prep [OF q2(1,2)] by (simp add: q2(3))
  from example_after_3 obtain q3 where
    q3: "currentQuest (run (noteCalls 3) exampleContext) = Some q3" "phase q3 = INVESTIGATION"
      "length (findings q3) = 3" "\<forall>x \<in> set (findings q3). significance x = Moderate"
    by blast
  have 3: "map_option phase (currentQuest (snd (continueQuest ''note'' None env0
     (run (noteCalls 3) exampleContext)))) = Some INVESTIGATION"
    using inv [OF q3(1,2), of "''note''" None env0] q3(4) by (simp add: q3(3))
  have 4: "map_option phase (currentQuest (snd (continueQuest ''fix found'' (Some Breakthrough) env0
     (run (noteCalls 3) exampleContext)))) = Some BATTLE"
    using inv [OF q3(1,2), of "''fix found''" "Some Breakthrough" env0] by simp
  from example_after_5 obtain q5 where
    q5: "currentQuest (run (noteCalls 5) exampleContext) = Some q5" "phase q5 = INVESTIGATION"
      "length (findings q5) = 5"
    by blast
  have 5: "map_option phase (currentQuest (snd (continueQuest ''note'' None env0
     (run (noteCalls 5) exampleContext)))) = Some BATTLE"
    using inv [OF q5(1,2), of "''note''" None env0] by (simp add: q5(3))
  from example_after_6 obtain q6 where
    q6: "currentQuest (run (noteCalls 6) exampleContext) = Some q6" "phase q6 = BATTLE"
    by blast
  have 6: "map_option phase (currentQuest (snd (continueQuest ''note'' None env0
     (run (noteCalls 6) exampleContext)))) = Some BATTLE"
    using bat [OF q6(1,2)] .
  from 1 2 3 4 5 6 show ?thesis by blast
qed

subsection \<open>C6: the phase never goes back\<close>

text \<open>
  C6: along any sequence of \<^verbatim>\<open>continueQuest\<close>, \<^verbatim>\<open>seekWisdom\<close>, \<^verbatim>\<open>getQuestStatus\<close> and
  \<^verbatim>\<open>completeQuest\<close> calls applied to a context with an open quest, the phase of that
  quest, read in the current slot and, once it is closed, in the history, never decreases
  in the order \<open>PREPARATION < INVESTIGATION < BATTLE < VICTORY\<close>; and it is never
  \<open>VICTORY\<close> unless it was so at the start or the sequence has a \<^verbatim>\<open>completeQuest\<close>.
\<close>

theorem phase_never_decreases:
  "currentQuest ctx = Some q \<Longrightarrow>
   \<exists>ps. map (trackedPhase (length (completedQuests ctx))) (trace calls ctx) =
           map Some (phase q # ps) \<and>
        sorted (map phaseRank (phase q # ps)) \<and>
        (phase q \<noteq> VICTORY \<and> (\<forall>c \<in> set calls. \<not> isClose (fst c)) \<longrightarrow>
           VICTORY \<notin> set (phase q # ps))"
proof -
  assume q: "currentQuest ctx = Some q"
  then have "tracking (length (completedQuests ctx)) ctx"
    by (simp add: tracking_def)
  from trace_phases [OF this, of calls] q show ?thesis
    by (simp add: trackedPhase_def)
qed

text \<open>
  The example quest through three findings, a request for wisdom, a status, a close and a
  late finding; and seven findings without a close.
\<close>

theorem phase_never_decreases_witness:
  "currentQuest exampleContext = Some exampleQuest \<and>
   map (trackedPhase 0) (trace exampleCalls exampleContext) =
     map Some [PREPARATION, PREPARATION, PREPARATION, INVESTIGATION, INVESTIGATION,
       INVESTIGATION, VICTORY, VICTORY] \<and>
   sorted (map phaseRank [PREPARATION, PREPARATION, PREPARATION, INVESTIGATION, INVESTIGATION,
       INVESTIGATION, VICTORY, VICTORY]) \<and>
   Some VICTORY \<notin> set (map (trackedPhase 0) (trace (noteCalls 7) exampleContext))"
proof -
  note T = phase_never_decreases [OF exampleContext_current, unfolded exampleContext_completed list.size(3)]
  from T [of exampleCalls] obtain ps where
    ps: "map (trackedPhase 0) (trace exampleCalls exampleContext) =
           map Some (phase exampleQuest # ps)"
      "sorted (map phaseRank (phase exampleQuest # ps))"
    by blast
  from ps(1) have "phase exampleQuest # ps = [PREPARATION, PREPARATION, PREPARATION,
       INVESTIGATION, INVESTIGATION, INVESTIGATION, VICTORY, VICTORY]"
    unfolding exampleCalls_trace by (simp only: inj_map_eq_map [OF inj_Some])
  with ps(2) have s: "sorted (map phaseRank [PREPARATION, PREPARATION, PREPARATION,
       INVESTIGATION, INVESTIGATION, INVESTIGATION, VICTORY, VICTORY])"
    by (simp only:)
  from T [of "noteCalls 7"] obtain ps' where
    ps': "map (trackedPhase 0) (trace (noteCalls 7) exampleContext) =
           map Some (phase exampleQuest # ps')"
      "phase exampleQuest \<noteq> VICTORY \<and> (\<forall>c \<in> set (noteCalls 7). \<not> isClose (fst c)) \<longrightarrow>
           VICTORY \<notin> set (phase exampleQuest # ps')"
    by blast
  from ps'(2) have "VICTORY \<notin> set (phase exampleQuest # ps')"
    using noteCalls_not_close [of 7] by (simp add: exampleQuest_fields)
  then have v: "Some VICTORY \<notin> set (map (trackedPhase 0) (trace (noteCalls 7) exampleContext))"
    unfolding ps'(1) by auto
  from exampleContext_current exampleCalls_trace s v show ?thesis by blast
qed

subsection \<open>C7: the experience of a closed quest\<close>

text \<open>
  C7: \<^verbatim>\<open>completeQuest\<close> on an open quest archives the quest with its findings and one
  more milestone, and adds to the total experience the base of the severity (10, 25, 50,
  100, 150 for \<open>GOBLIN\<close>, \<open>ORC\<close>, \<open>TROLL\<close>, \<open>DRAGON\<close>, \<open>HYDRA\<close>) plus 2 for each
  finding plus 5 for each milestone of the archived quest, the completion milestone
  included. A quest of severity \<open>GOBLIN\<close> that is opened, given two findings and closed
  adds exactly 19.
\<close>

theorem completeQuest_experience:
  "(currentQuest ctx = Some q \<longrightarrow>
      (\<exists>q'. completedQuests (snd (completeQuest sol e ctx)) = completedQuests ctx @ [q'] \<and>
         bugSeverity q' = bugSeverity q \<and> findings q' = findings q \<and>
         length (milestones q') = Suc (length (milestones q)) \<and>
         totalExperience (snd (completeQuest sol e ctx)) =
           totalExperience ctx +
             (base_xp (bugSeverity q') + 2 * length (findings q') + 5 * length (milestones q')))) \<and>
   (classifyBugSeverity d u = GOBLIN \<longrightarrow>
      totalExperience (snd (completeQuest sol e3 (snd (continueQuest f2 s2 e2
         (snd (continueQuest f1 s1 e1 (snd (startQuest d ts u e0 ctx0)))))))) =
        totalExperience ctx0 + 19)"
proof (intro conjI impI)
  assume q: "currentQuest ctx = Some q"
  let ?q' = "closedQuest sol e q"
  have "completedQuests (snd (completeQuest sol e ctx)) = completedQuests ctx @ [?q']"
    "totalExperience (snd (completeQuest sol e ctx)) =
       totalExperience ctx +
         (base_xp (bugSeverity ?q') + 2 * length (findings ?q') + 5 * length (milestones ?q'))"
    using q by (simp_all add: completeQuest_snd calculateExperience_eq)
  moreover have "bugSeverity ?q' = bugSeverity q" "findings ?q' = findings q"
    "length (milestones ?q') = Suc (length (milestones q))"
    by (simp_all add: closedQuest_def)
  ultimately show "\<exists>q'. completedQuests (snd (completeQuest sol e ctx)) = completedQuests ctx @ [q'] \<and>
         bugSeverity q' = bugSeverity q \<and> findings q' = findings q \<and>
         length (milestones q') = Suc (length (milestones q)) \<and>
         totalExperience (snd (completeQuest sol e ctx)) =
           totalExperience ctx +
             (base_xp (bugSeverity q') + 2 * length (findings q') + 5 * length (milestones q'))"
    by blast
next
  assume g: "classifyBugSeverity d u = GOBLIN"
  let ?c2 = "snd (continueQuest f2 s2 e2 (snd (continueQuest f1 s1 e1 (snd (startQuest d ts u e0 ctx0)))))"
  from two_findings_after_start [of f2 s2 e2 f1 s1 e1 d ts u e0 ctx0] obtain q2 where
    q2: "currentQuest ?c2 = Some q2" "length (findings q2) = 2" "milestones q2 = []"
      "bugSeverity q2 = classifyBugSeverity d u"
    by blast
  have t: "totalExperience ?c2 = totalExperience ctx0"
    by (simp add: continueQuest_frame startQuest_ctx)
  show "totalExperience (snd (completeQuest sol e3 ?c2)) = totalExperience ctx0 + 19"
    using q2 g t by (simp add: completeQuest_snd calculateExperience_eq closedQuest_def)
qed

text \<open>The example quest is a \<open>GOBLIN\<close>; closed after two findings it brings 19 points.\<close>

theorem completeQuest_experience_witness:
  "classifyBugSeverity ''typo in label'' None = GOBLIN \<and>
   totalExperience (snd (completeQuest None env0 (run (noteCalls 2) exampleContext))) = 19 \<and>
   map (\<lambda>q. (length (findings q), length (milestones q)))
     (completedQuests (snd (completeQuest None env0 (run (noteCalls 2) exampleContext)))) = [(2, 1)]"
proof -
  from example_after_2 obtain q2 where
    q2: "currentQuest (run (noteCalls 2) exampleContext) = Some q2" "length (findings q2) = 2"
      "completedQuests (run (noteCalls 2) exampleContext) = []" and m: "milestones q2 = []"
    by blast
  from completeQuest_experience [THEN conjunct1, rule_format, OF q2(1), of None env0]
  have a: "map (\<lambda>q. (length (findings q), length (milestones q)))
     (completedQuests (snd (completeQuest None env0 (run (noteCalls 2) exampleContext)))) = [(2, 1)]"
    using q2(2,3) m by auto
  from completeQuest_experience [THEN conjunct2, rule_format, OF typo_is_goblin,
      of None env0 "''note''" None env0 "''note''" None env0 None env0 initialContext]
  have b: "totalExperience (snd (completeQuest None env0 (run (noteCalls 2) exampleContext))) = 19"
    by (simp add: run_two_notes initialContext_def)
  from a b typo_is_goblin show ?thesis by blast
qed

subsection \<open>C8: opening a quest\<close>

text \<open>
  C8: \<^verbatim>\<open>startQuest\<close> always returns (the model is a total function with no error
  result), whatever the context holds: the quest it returns is the new current quest, in
  phase \<open>PREPARATION\<close> with no findings and no milestones, and the history, the total
  experience and the level are unchanged; so a quest that was open is dropped without
  entering the history.
\<close>

theorem startQuest_installs_fresh_quest:
  "currentQuest (snd (startQuest d ts u e ctx)) = Some (fst (fst (startQuest d ts u e ctx))) \<and>
   phase (fst (fst (startQuest d ts u e ctx))) = PREPARATION \<and>
   findings (fst (fst (startQuest d ts u e ctx))) = [] \<and>
   milestones (fst (fst (startQuest d ts u e ctx))) = [] \<and>
   completedQuests (snd (startQuest d ts u e ctx)) = completedQuests ctx \<and>
   totalExperience (snd (startQuest d ts u e ctx)) = totalExperience ctx \<and>
   heroLevel (snd (startQuest d ts u e ctx)) = heroLevel ctx"
  by (simp add: startQuest_ctx) (simp add: startQuest_quest)

subsection \<open>C9: asking for wisdom\<close>




subsection \<open>C10: one step at a time\<close>

text \<open>
  C10: one call of \<^verbatim>\<open>continueQuest\<close> moves the phase by at most one step. When the
  third finding of a quest in \<open>PREPARATION\<close> is a breakthrough, the phase after the
  call is \<open>INVESTIGATION\<close>, and the next call, whatever its finding, moves it to
  \<open>BATTLE\<close>.
\<close>

theorem continueQuest_one_step:
  "(currentQuest ctx = Some q \<longrightarrow>
      (\<exists>q'. currentQuest (snd (continueQuest f s e ctx)) = Some q' \<and>
         (phaseRank (phase q') = phaseRank (phase q) \<or>
          phaseRank (phase q') = Suc (phaseRank (phase q))))) \<and>
   (currentQuest ctx = Some q \<and> phase q = PREPARATION \<and> length (findings q) = 2 \<longrightarrow>
      map_option phase (currentQuest (snd (continueQuest f (Some Breakthrough) e ctx))) =
        Some INVESTIGATION \<and>
      map_option phase (currentQuest (snd (continueQuest f' s' e'
          (snd (continueQuest f (Some Breakthrough) e ctx))))) = Some BATTLE)"
proof (intro conjI impI)
  assume "currentQuest ctx = Some q"
  from continueQuest_effect [OF this, of f s e] obtain q' where
    q': "currentQuest (snd (continueQuest f s e ctx)) = Some q'"
      "phase q' = advance_rule (phase q) (findings q')"
    by blast
  from q'(2) have "phaseRank (phase q') = phaseRank (phase q) \<or>
          phaseRank (phase q') = Suc (phaseRank (phase q))"
    using advance_rule_rank [of "phase q" "findings q'"] by simp
  with q'(1) show "\<exists>q'. currentQuest (snd (continueQuest f s e ctx)) = Some q' \<and>
         (phaseRank (phase q') = phaseRank (phase q) \<or>
          phaseRank (phase q') = Suc (phaseRank (phase q)))"
    by blast
next
  assume a: "currentQuest ctx = Some q \<and> phase q = PREPARATION \<and> length (findings q) = 2"
  then have c: "currentQuest ctx = Some q" by simp
  from continueQuest_effect [OF c, of f "Some Breakthrough" e] obtain q1 x where
    q1: "currentQuest (snd (continueQuest f (Some Breakthrough) e ctx)) = Some q1"
      "findings q1 = findings q @ [x]"
      "significance x = (case Some Breakthrough of None \<Rightarrow> Moderate | Some v \<Rightarrow> v)"
      "phase q1 = advance_rule (phase q) (findings q1)"
    by blast
  from q1(2,4) a have p1: "phase q1 = INVESTIGATION"
    by (simp add: advance_rule_def)
  with q1(1) show "map_option phase (currentQuest (snd (continueQuest f (Some Breakthrough) e ctx))) =
        Some INVESTIGATION"
    by simp
  from continueQuest_effect [OF q1(1), of f' s' e'] obtain q2 y where
    q2: "currentQuest (snd (continueQuest f' s' e'
          (snd (continueQuest f (Some Breakthrough) e ctx)))) = Some q2"
      "findings q2 = findings q1 @ [y]"
      "phase q2 = advance_rule (phase q1) (findings q2)"
    by blast
  from q2(2) q1(2,3) have "\<exists>x \<in> set (findings q2). significance x = Breakthrough" by simp
  with q2(3) p1 have "phase q2 = BATTLE"
    by (simp add: advance_rule_def)
  with q2(1) show "map_option phase (currentQuest (snd (continueQuest f' s' e'
          (snd (continueQuest f (Some Breakthrough) e ctx))))) = Some BATTLE"
    by simp
qed

text \<open>The example quest with two findings, then a breakthrough, then one more finding.\<close>

theorem continueQuest_one_step_witness:
  "map_option phase (currentQuest (run (noteCalls 2) exampleContext)) = Some PREPARATION \<and>
   map_option phase (currentQuest (snd (continueQuest ''fix found'' (Some Breakthrough) env0
     (run (noteCalls 2) exampleContext)))) = Some INVESTIGATION \<and>
   map_option phase (currentQuest (snd (continueQuest ''note'' None env0
     (snd (continueQuest ''fix found'' (Some Breakthrough) env0
       (run (noteCalls 2) exampleContext)))))) = Some BATTLE"
proof -
  from example_after_2 obtain q2 where
    q2: "currentQuest (run (noteCalls 2) exampleContext) = Some q2 \<and> phase q2 = PREPARATION \<and>
      length (findings q2) = 2"
    by blast
  from continueQuest_one_step [THEN conjunct2, rule_format, OF q2,
      of "''fix found''" env0 "''note''" None env0] q2
  show ?thesis by simp
qed

end
